theory Spec2Isabelle
  imports Main
begin

section \<open>The FCI integral-dump driver of ExaChem (exachem/fci/fci.hpp)\<close>

text \<open>
  The driver orchestrates library calls: distributed tensors are allocated, read from and
  written to disk, contracted by a scheduler and handed to the FCIDUMP exporter. The model
  is the view of one process of the process group: a world made of the file system, the
  store of allocated tensors and the chronological trace of the collective and I/O
  operations the process performs. Tiling and distribution of a tensor are abstracted away:
  a tiled index space is its extent, a tensor is its shape and its element function.
  The element type \<open>'a\<close> stands for \<open>double\<close>; the definitions only use its zero, addition
  and multiplication, and every theorem says which laws of them it needs.
\<close>

subsection \<open>Errors and results\<close>

text \<open>
  The error taxonomy of the design (section 7). \<open>AssertionFailure\<close> stands for a violated
  precondition of a library call (an operand that is not allocated, a tensor without
  dimensions).
\<close>

datatype error =
    ConfigurationError | ResourceError | FormatError | NumericalError | IOError
  | ProtocolError | AssertionFailure

subsection \<open>Tensors, index spaces and labels\<close>

record 'a tensor =
  dims :: "nat list"
  elems :: "nat list \<Rightarrow> 'a"

text \<open>The tensor objects the two functions declare or receive.\<close>

datatype tid = CholVpr | D_f1 | Lcao | Full_v2 | Hcore | Hcore_mo | Tmp

text \<open>A tensor handle: the object and the extents of the index spaces it is declared over.\<close>

type_synonym handle = "tid \<times> nat list"

text \<open>The index labels of the source, each drawn from an index space of a given extent.\<close>

datatype lname = Z1 | Z2 | Mu | Nu | P | Q | R | S | Cindex

type_synonym label = "lname \<times> nat"

definition label_of :: "nat \<Rightarrow> lname \<Rightarrow> label" where
  "label_of tis n = (n, tis)"

subsection \<open>Contractions\<close>

text \<open>
  Modelled from the spec: the contraction of the tensor library's scheduler, which is not part
  of the sources. Section 4.3: a repeated index implies summation over the extent of its
  index space, and the products are accumulated with the element type's addition. An
  assignment \<open>C(cl) = A(al) * B(bl)\<close> gives every entry of \<open>C\<close> the sum, over the labels that
  occur on the right only, of the products of the entries of \<open>A\<close> and \<open>B\<close>.
\<close>

type_synonym env = "lname \<Rightarrow> nat"

fun bind_labels :: "label list \<Rightarrow> nat list \<Rightarrow> env \<Rightarrow> env" where
  "bind_labels (l # ls) (i # is) e = bind_labels ls is (e(fst l := i))"
| "bind_labels _ _ e = e"

definition idx :: "env \<Rightarrow> label list \<Rightarrow> nat list" where
  "idx e ls = map (\<lambda>l. e (fst l)) ls"

text \<open>Every assignment of the summed labels, the first label varying slowest.\<close>

fun assignments :: "label list \<Rightarrow> env \<Rightarrow> env list" where
  "assignments [] e = [e]"
| "assignments (l # ls) e = concat (map (\<lambda>v. assignments ls (e(fst l := v))) [0..<snd l])"

text \<open>The labels of the right-hand side that do not occur on the left are summed over.\<close>

definition contracted :: "label list \<Rightarrow> label list \<Rightarrow> label list \<Rightarrow> label list" where
  "contracted cl al bl = remdups (filter (\<lambda>l. l \<notin> set cl) (al @ bl))"

text \<open>Accumulation in index order, starting from zero, with the element type's addition.\<close>

definition accumulate :: "('a::{zero,plus}) list \<Rightarrow> 'a" where
  "accumulate xs = foldl (\<lambda>acc x. acc + x) 0 xs"

text \<open>\<open>C(cl) = A(al) * B(bl)\<close>: the element of the result at index tuple \<open>i\<close>.\<close>

definition mult_elems ::
  "label list \<Rightarrow> ('a::{zero,plus,times}) tensor \<Rightarrow> label list \<Rightarrow> 'a tensor \<Rightarrow> label list
   \<Rightarrow> nat list \<Rightarrow> 'a" where
  "mult_elems cl A al B bl i =
     accumulate (map (\<lambda>e. elems A (idx e al) * elems B (idx e bl))
                     (assignments (contracted cl al bl) (bind_labels cl i (\<lambda>_. 0))))"

subsection \<open>The world of one process\<close>

text \<open>
  What a path of the file system holds. A tensor file stores the tensor with its shape; the
  interchange file is represented by the three arguments the exporter serialises.
\<close>

datatype 'a node =
    Dir
  | TensorFile "'a tensor"
  | TextFile string
  | FcidumpFile "'a tensor" "'a tensor" "int list"

text \<open>The operations of a run that are visible outside the process, in the order they happen.\<close>

datatype event =
    EvMkdir string
  | EvRead tid string
  | EvWrite tid string
  | EvWriteText string string
  | EvStderr string
  | EvBarrier
  | EvAllocate tid
  | EvDeallocate tid
  | EvMult tid tid tid
  | EvExport string
  | EvFlushSync

text \<open>
  \<open>unwritable\<close> holds the paths at which the environment refuses to create or open a file
  for writing (permissions, a missing parent directory, a full disk).
\<close>

record 'a world =
  files :: "string \<Rightarrow> 'a node option"
  unwritable :: "string set"
  store :: "tid \<Rightarrow> 'a tensor option"
  trace :: "event list"

datatype ('r, 'a) result = Done 'r "'a world" | Failed error "'a world"

fun andthen :: "('r, 'a) result \<Rightarrow> ('r \<Rightarrow> 'a world \<Rightarrow> ('s, 'a) result) \<Rightarrow> ('s, 'a) result" where
  "andthen (Done r w) f = f r w"
| "andthen (Failed e w) f = Failed e w"

fun succeeded :: "('r, 'a) result \<Rightarrow> bool" where
  "succeeded (Done r w) = True"
| "succeeded (Failed e w) = False"

fun final :: "('r, 'a) result \<Rightarrow> 'a world" where
  "final (Done r w) = w"
| "final (Failed e w) = w"

fun failure :: "('r, 'a) result \<Rightarrow> error option" where
  "failure (Done r w) = None"
| "failure (Failed e w) = Some e"

definition log :: "event \<Rightarrow> 'a world \<Rightarrow> 'a world" where
  "log ev w = w\<lparr>trace := trace w @ [ev]\<rparr>"

subsection \<open>File system calls\<close>

definition fs_exists :: "'a world \<Rightarrow> string \<Rightarrow> bool" where
  "fs_exists w p = (files w p \<noteq> None)"

text \<open>Whether a file can be opened for writing at a path: not refused, and not a directory.\<close>

definition can_open_out :: "'a world \<Rightarrow> string \<Rightarrow> bool" where
  "can_open_out w p = (p \<notin> unwritable w \<and> files w p \<noteq> Some Dir)"

text \<open>
  \<open>fs::create_directories\<close>, called by the source only on a path that does not exist. The
  parent directories it creates on the way are not represented.
\<close>

definition create_directories :: "string \<Rightarrow> 'a world \<Rightarrow> (unit, 'a) result" where
  "create_directories p w =
     (let w1 = log (EvMkdir p) w in
      if p \<in> unwritable w1 then Failed IOError w1
      else Done () (w1\<lparr>files := (files w1)(p \<mapsto> Dir)\<rparr>))"

text \<open>\<open>if(!fs::exists(dir)) fs::create_directories(dir)\<close>\<close>

definition ensure_directory :: "string \<Rightarrow> 'a world \<Rightarrow> (unit, 'a) result" where
  "ensure_directory p w = (if \<not> fs_exists w p then create_directories p w else Done () w)"

subsection \<open>Distributed tensor calls\<close>

text \<open>
  Modelled from the spec: \<open>read_from_disk\<close> belongs to the tensor library, which is not part of
  the sources. Section 4.2: the tensor must be allocated with a shape matching the file's
  stored shape, a mismatch fails with a FormatError; section 7: a file that cannot be opened
  is an IOError. The tensor then holds what the file holds.
\<close>

definition read_from_disk :: "handle \<Rightarrow> string \<Rightarrow> 'a world \<Rightarrow> (unit, 'a) result" where
  "read_from_disk h p w =
     (let w1 = log (EvRead (fst h) p) w in
      case store w1 (fst h) of
        None \<Rightarrow> Failed AssertionFailure w1
      | Some t \<Rightarrow>
          (case files w1 p of
             None \<Rightarrow> Failed IOError w1
           | Some (TensorFile ft) \<Rightarrow>
               if dims ft = dims t then Done () (w1\<lparr>store := (store w1)(fst h \<mapsto> ft)\<rparr>)
               else Failed FormatError w1
           | Some _ \<Rightarrow> Failed FormatError w1))"

text \<open>
  Modelled from the spec: \<open>write_to_disk\<close> of the tensor library. Sections 4.2 and 7: the
  tensor must be allocated, and a file that cannot be opened for writing is an IOError. The
  file then holds the tensor, exactly, with its shape.
\<close>

definition write_to_disk :: "handle \<Rightarrow> string \<Rightarrow> 'a world \<Rightarrow> (unit, 'a) result" where
  "write_to_disk h p w =
     (let w1 = log (EvWrite (fst h) p) w in
      case store w1 (fst h) of
        None \<Rightarrow> Failed AssertionFailure w1
      | Some t \<Rightarrow>
          if can_open_out w1 p then Done () (w1\<lparr>files := (files w1)(p \<mapsto> TensorFile t)\<rparr>)
          else Failed IOError w1)"

text \<open>
  Modelled from the spec: \<open>Tensor::allocate\<close>, \<open>free_tensors\<close>, the barrier of the process group
  and \<open>flush_and_sync\<close> of the tensor library. Section 4.2: allocation reserves storage of the
  declared shape (its contents are taken to be zero until assigned), deallocation releases it.
\<close>

definition allocate1 :: "handle \<Rightarrow> ('a::zero) world \<Rightarrow> 'a world" where
  "allocate1 h w =
     (log (EvAllocate (fst h)) w)
       \<lparr>store := (store w)(fst h \<mapsto> \<lparr>dims = snd h, elems = (\<lambda>_. 0)\<rparr>)\<rparr>"

definition deallocate1 :: "handle \<Rightarrow> 'a world \<Rightarrow> 'a world" where
  "deallocate1 h w = (log (EvDeallocate (fst h)) w)\<lparr>store := (store w)(fst h := None)\<rparr>"

definition allocate :: "handle list \<Rightarrow> ('a::zero) world \<Rightarrow> (unit, 'a) result" where
  "allocate hs w = Done () (fold allocate1 hs w)"

definition free_tensors :: "handle list \<Rightarrow> 'a world \<Rightarrow> (unit, 'a) result" where
  "free_tensors hs w = Done () (fold deallocate1 hs w)"

definition barrier :: "'a world \<Rightarrow> (unit, 'a) result" where
  "barrier w = Done () (log EvBarrier w)"

definition flush_and_sync :: "'a world \<Rightarrow> (unit, 'a) result" where
  "flush_and_sync w = Done () (log EvFlushSync w)"

subsection \<open>The scheduler\<close>

text \<open>
  Modelled from the spec: the scheduler of the tensor library. Section 4.3: it accepts an
  ordered list of operations with allocate and deallocate directives and executes them, in
  program order, as one unit when \<open>execute\<close> is called. An operation on a tensor that is not
  allocated fails.
\<close>

datatype op =
    OpAllocate handle
  | OpDeallocate handle
  | OpMult handle "label list" handle "label list" handle "label list"

fun run_op :: "op \<Rightarrow> ('a::{zero,plus,times}) world \<Rightarrow> (unit, 'a) result" where
  "run_op (OpAllocate h) w = Done () (allocate1 h w)"
| "run_op (OpDeallocate h) w = Done () (deallocate1 h w)"
| "run_op (OpMult c cl a al b bl) w =
     (let w1 = log (EvMult (fst c) (fst a) (fst b)) w in
      case (store w1 (fst c), store w1 (fst a), store w1 (fst b)) of
        (Some tc, Some ta, Some tb) \<Rightarrow>
          Done () (w1\<lparr>store := (store w1)
                     (fst c \<mapsto> \<lparr>dims = dims tc, elems = mult_elems cl ta al tb bl\<rparr>)\<rparr>)
      | _ \<Rightarrow> Failed AssertionFailure w1)"

fun execute :: "op list \<Rightarrow> ('a::{zero,plus,times}) world \<Rightarrow> (unit, 'a) result" where
  "execute [] w = Done () w"
| "execute (x # xs) w = andthen (run_op x w) (\<lambda>_. execute xs)"

subsection \<open>System data and file names\<close>

record CCSDOptions =
  basis :: string
  readt :: bool
  writet :: bool

record SCFOptions =
  scf_type :: string

record OptionsMap =
  ccsd_options :: CCSDOptions
  scf_options :: SCFOptions

text \<open>
  The fields of \<open>SystemData\<close> the two functions read. Its declaration is not part of the
  sources; the orbital count \<open>nbf_orig\<close> is taken as a natural number.
\<close>

record SystemData =
  output_file_prefix :: string
  options_map :: OptionsMap
  nbf_orig :: nat
  is_unrestricted :: bool

definition out_fp :: "SystemData \<Rightarrow> string" where
  "out_fp sys = output_file_prefix sys @ ''.'' @ basis (ccsd_options (options_map sys))"

text \<open>The names \<open>fci_driver\<close> computes.\<close>

definition files_dir :: "SystemData \<Rightarrow> string" where
  "files_dir sys = out_fp sys @ ''_files/'' @ scf_type (scf_options (options_map sys))"

definition files_prefix :: "SystemData \<Rightarrow> string" where
  "files_prefix sys = files_dir sys @ ''/'' @ out_fp sys"

definition f1file :: "SystemData \<Rightarrow> string" where
  "f1file sys = files_prefix sys @ ''.f1_mo''"

definition v2file :: "SystemData \<Rightarrow> string" where
  "v2file sys = files_prefix sys @ ''.cholv2''"

definition cholfile :: "SystemData \<Rightarrow> string" where
  "cholfile sys = files_prefix sys @ ''.cholcount''"

text \<open>The names \<open>generate_fcidump\<close> computes.\<close>

definition fci_files_dir :: "SystemData \<Rightarrow> string" where
  "fci_files_dir sys =
     out_fp sys @ ''_files/'' @ scf_type (scf_options (options_map sys)) @ ''/fci''"

definition fci_files_prefix :: "SystemData \<Rightarrow> string" where
  "fci_files_prefix sys = fci_files_dir sys @ ''/'' @ out_fp sys"

definition hcorefile :: "SystemData \<Rightarrow> string" where
  "hcorefile sys = fci_files_dir sys @ ''/../scf/'' @ out_fp sys @ ''.hcore''"

definition fcid_file :: "SystemData \<Rightarrow> string" where
  "fcid_file sys = fci_files_prefix sys @ ''.fcidump''"

subsection \<open>generate_fcidump\<close>

text \<open>\<open>std::vector::resize\<close> and \<open>std::fill\<close> on a vector of \<open>int\<close>.\<close>

definition resize :: "nat \<Rightarrow> int list \<Rightarrow> int list" where
  "resize n xs = take n xs @ replicate (n - length xs) 0"

definition fill :: "int list \<Rightarrow> int \<Rightarrow> int list" where
  "fill xs v = map (\<lambda>_. v) xs"

definition symvec :: "SystemData \<Rightarrow> int list" where
  "symvec sys =
     (let v0 = replicate (nbf_orig sys) 0;
          v1 = (if is_unrestricted sys then resize (2 * nbf_orig sys) v0 else v0)
      in fill v1 1)"

text \<open>
  Modelled from the spec: \<open>fcidump::write_fcidump_file\<close> is declared in common/fcidump.hpp,
  which is not part of the sources. Section 4.6: given the transformed one-electron tensor, the
  full two-electron tensor and the symmetry labels it writes a single interchange file. The
  file is represented by these three arguments; the header metadata it takes from the system
  data is left out.
\<close>

definition write_fcidump_file ::
  "SystemData \<Rightarrow> handle \<Rightarrow> handle \<Rightarrow> int list \<Rightarrow> string \<Rightarrow> 'a world \<Rightarrow> (unit, 'a) result" where
  "write_fcidump_file sys h v sv p w =
     (let w1 = log (EvExport p) w in
      case (store w1 (fst h), store w1 (fst v)) of
        (Some th, Some tv) \<Rightarrow>
          if can_open_out w1 p
          then Done () (w1\<lparr>files := (files w1)(p \<mapsto> FcidumpFile th tv sv)\<rparr>)
          else Failed IOError w1
      | _ \<Rightarrow> Failed AssertionFailure w1)"

text \<open>
  The scheduling unit of the basis rotation:
  \<^verbatim>\<open>sch.allocate(tmp)(tmp(z1,nu) = lcao(mu,z1) * hcore(mu,nu))
     (hcore_mo(z1,z2) = tmp(z1,nu) * lcao(nu,z2)).deallocate(tmp,hcore).execute();\<close>
\<close>

definition rotation_ops :: "nat \<Rightarrow> nat \<Rightarrow> handle \<Rightarrow> handle \<Rightarrow> handle \<Rightarrow> handle \<Rightarrow> op list" where
  "rotation_ops MSO AO lcao hcore hcore_mo tmp =
     (let z1 = label_of MSO Z1; z2 = label_of MSO Z2;
          mu = label_of AO Mu; nu = label_of AO Nu
      in [OpAllocate tmp,
          OpMult tmp [z1, nu] lcao [mu, z1] hcore [mu, nu],
          OpMult hcore_mo [z1, z2] tmp [z1, nu] lcao [nu, z2],
          OpDeallocate tmp,
          OpDeallocate hcore])"

text \<open>
  \<open>AO\<close> is the first index space of \<open>lcao\<close>. The execution hardware argument selects where the
  scheduler runs and is left out. The function returns \<open>files_prefix\<close>.
\<close>

definition generate_fcidump ::
  "SystemData \<Rightarrow> nat \<Rightarrow> handle \<Rightarrow> handle \<Rightarrow> handle \<Rightarrow> ('a::{zero,plus,times}) world
   \<Rightarrow> (string, 'a) result" where
  "generate_fcidump sys MSO lcao d_f1 full_v2 w =
     (case snd lcao of
        [] \<Rightarrow> Failed AssertionFailure w
      | AO # _ \<Rightarrow>
          (let hcore = (Hcore, [AO, AO]);
               hcore_mo = (Hcore_mo, [MSO, MSO]);
               tmp = (Tmp, [MSO, AO])
           in
           andthen (allocate [hcore, hcore_mo] w) (\<lambda>_ w.
           andthen (ensure_directory (fci_files_dir sys) w) (\<lambda>_ w.
           andthen (read_from_disk hcore (hcorefile sys) w) (\<lambda>_ w.
           andthen (execute (rotation_ops MSO AO lcao hcore hcore_mo tmp) w) (\<lambda>_ w.
           andthen (write_fcidump_file sys hcore_mo full_v2 (symvec sys) (fcid_file sys) w) (\<lambda>_ w.
           andthen (free_tensors [hcore_mo] w) (\<lambda>_ w.
           Done (fci_files_prefix sys) w))))))))"

subsection \<open>fci_driver\<close>

text \<open>Decimal text of the vector count, as \<open>out << chol_count\<close> prints it.\<close>

function dec :: "nat \<Rightarrow> string" where
  "dec n = (if n < 10 then [''0123456789'' ! n]
            else dec (n div 10) @ [''0123456789'' ! (n mod 10)])"
  by pat_completeness auto
termination
  by (relation "measure (\<lambda>n. n)") auto

declare dec.simps [simp del]

text \<open>
  The block run by rank 0 only:
  \<^verbatim>\<open>std::ofstream out(cholfile, std::ios::out);
  if(!out) cerr << "Error opening file " << cholfile << endl;
  out << chol_count << std::endl;
  out.close();\<close>
  Opening truncates the file. Writing to a stream that failed to open does nothing.
\<close>

definition write_count :: "nat \<Rightarrow> string \<Rightarrow> nat \<Rightarrow> 'a world \<Rightarrow> (unit, 'a) result" where
  "write_count rank p chol_count w =
     (if rank = 0 then
        (if can_open_out w p
         then (let line = dec chol_count @ [CHR 0x0A]
               in Done () ((log (EvWriteText p line) w)\<lparr>files := (files w)(p \<mapsto> TextFile line)\<rparr>))
         else Done () (log (EvStderr (''Error opening file '' @ p @ [CHR 0x0A])) w))
      else Done () w)"

text \<open>
  What \<open>cd_svd_driver\<close> returns: the factorized vectors, the one-electron operator, the LCAO
  coefficients, the vector count and the extent of the auxiliary index space \<open>CI\<close>.
\<close>

record 'a cd_svd_result =
  cd_cholVpr :: "'a tensor"
  cd_d_f1 :: "'a tensor"
  cd_lcao :: "'a tensor"
  cd_chol_count :: nat
  cd_CI :: nat

text \<open>
  The collaborators of the driver that are not part of the sources are parameters of a run:
  the rank of the process, the system data \<open>hartree_fock_driver\<close> returns, the extent of the
  orbital space \<open>setupMOIS\<close> returns, and \<open>cd_svd_driver\<close> as a function of the restart flag,
  the count file name it is called with and the disk it finds.
\<close>

record 'a upstream =
  pg_rank :: nat
  hf_sys_data :: SystemData
  mo_space :: nat
  cd_svd_driver :: "bool \<Rightarrow> string \<Rightarrow> (string \<Rightarrow> 'a node option) \<Rightarrow> 'a cd_svd_result"

definition ccsd_restart :: "SystemData \<Rightarrow> 'a world \<Rightarrow> bool" where
  "ccsd_restart sys w =
     (readt (ccsd_options (options_map sys))
      \<or> (fs_exists w (f1file sys) \<and> fs_exists w (v2file sys)))"

text \<open>The restore and persist branches, lines 102 to 121.\<close>

definition checkpoint ::
  "bool \<Rightarrow> SystemData \<Rightarrow> nat \<Rightarrow> handle \<Rightarrow> handle \<Rightarrow> nat \<Rightarrow> 'a world \<Rightarrow> (unit, 'a) result" where
  "checkpoint restart sys rank d_f1 cholVpr chol_count w =
     (if restart then
        andthen (read_from_disk d_f1 (f1file sys) w) (\<lambda>_ w.
        andthen (read_from_disk cholVpr (v2file sys) w) (\<lambda>_ w.
        barrier w))
      else if writet (ccsd_options (options_map sys)) then
        andthen (ensure_directory (files_dir sys) w) (\<lambda>_ w.
        andthen (write_to_disk d_f1 (f1file sys) w) (\<lambda>_ w.
        andthen (write_to_disk cholVpr (v2file sys) w) (\<lambda>_ w.
        write_count rank (cholfile sys) chol_count w)))
      else Done () w)"

text \<open>
  \<^verbatim>\<open>sch(full_v2(p, r, q, s) = cholVpr(p, r, cindex) * cholVpr(q, s, cindex)).execute(ex_hw);\<close>
\<close>

definition reconstruction_ops :: "nat \<Rightarrow> nat \<Rightarrow> handle \<Rightarrow> handle \<Rightarrow> op list" where
  "reconstruction_ops MO CI full_v2 cholVpr =
     (let cindex = label_of CI Cindex;
          p = label_of MO P; q = label_of MO Q; r = label_of MO R; s = label_of MO S
      in [OpMult full_v2 [p, r, q, s] cholVpr [p, r, cindex] cholVpr [q, s, cindex]])"

text \<open>
  Lines 123 to 146: the barrier that ends the checkpoint stage, the reconstruction of the
  full two-electron tensor, the export, and the release of the tensors. The optional solver
  call under \<open>USE_MACIS\<close> is left out.
\<close>

definition reconstruct_and_export ::
  "SystemData \<Rightarrow> nat \<Rightarrow> nat \<Rightarrow> handle \<Rightarrow> handle \<Rightarrow> handle \<Rightarrow> ('a::{zero,plus,times}) world
   \<Rightarrow> (unit, 'a) result" where
  "reconstruct_and_export sys MO CI cholVpr d_f1 lcao w =
     (let N = MO;
          full_v2 = (Full_v2, [N, N, N, N])
      in
      andthen (barrier w) (\<lambda>_ w.
      andthen (allocate [full_v2] w) (\<lambda>_ w.
      andthen (execute (reconstruction_ops MO CI full_v2 cholVpr) w) (\<lambda>_ w.
      andthen (free_tensors [cholVpr] w) (\<lambda>_ w.
      andthen (generate_fcidump sys MO lcao d_f1 full_v2 w) (\<lambda>_ w.
      andthen (free_tensors [lcao, d_f1, full_v2] w) (\<lambda>_ w.
      flush_and_sync w)))))))"

text \<open>
  The driver from line 84 on. The tensors \<open>cd_svd_driver\<close> returns are allocated and hold what
  it delivered. Console output is left out.
\<close>

definition fci_driver :: "('a::{zero,plus,times}) upstream \<Rightarrow> 'a world \<Rightarrow> (unit, 'a) result" where
  "fci_driver up w0 =
     (let sys = hf_sys_data up;
          restart = ccsd_restart sys w0;
          cd = cd_svd_driver up restart (cholfile sys) (files w0);
          cholVpr = (CholVpr, dims (cd_cholVpr cd));
          d_f1 = (D_f1, dims (cd_d_f1 cd));
          lcao = (Lcao, dims (cd_lcao cd));
          w1 = w0\<lparr>store := (store w0)(CholVpr \<mapsto> cd_cholVpr cd, D_f1 \<mapsto> cd_d_f1 cd,
                                        Lcao \<mapsto> cd_lcao cd)\<rparr>
      in
      andthen (checkpoint restart sys (pg_rank up) d_f1 cholVpr (cd_chol_count cd) w1) (\<lambda>_ w.
      reconstruct_and_export sys (mo_space up) (cd_CI cd) cholVpr d_f1 lcao w))"

subsection \<open>Notions used to state the properties\<close>

text \<open>The events a run adds to the trace it started with.\<close>

definition new_events :: "'a world \<Rightarrow> ('r, 'a) result \<Rightarrow> event list" where
  "new_events w0 r = drop (length (trace w0)) (trace (final r))"

text \<open>The path an event touches, if any.\<close>

fun event_path :: "event \<Rightarrow> string option" where
  "event_path (EvMkdir p) = Some p"
| "event_path (EvRead t p) = Some p"
| "event_path (EvWrite t p) = Some p"
| "event_path (EvWriteText p s) = Some p"
| "event_path (EvExport p) = Some p"
| "event_path _ = None"

text \<open>The tensor the two contractions of the basis rotation leave in \<open>hcore_mo\<close>.\<close>

definition rotated :: "nat \<Rightarrow> nat \<Rightarrow> ('a::{zero,plus,times}) tensor \<Rightarrow> 'a tensor \<Rightarrow> 'a tensor" where
  "rotated MSO AO L H =
     \<lparr>dims = [MSO, MSO],
      elems = mult_elems [label_of MSO Z1, label_of MSO Z2]
                \<lparr>dims = [MSO, AO],
                 elems = mult_elems [label_of MSO Z1, label_of AO Nu]
                           L [label_of AO Mu, label_of MSO Z1]
                           H [label_of AO Mu, label_of AO Nu]\<rparr>
                [label_of MSO Z1, label_of AO Nu]
                L [label_of AO Nu, label_of MSO Z2]\<rparr>"

text \<open>The tensor the reconstruction leaves in \<open>full_v2\<close>.\<close>

definition reconstructed :: "nat \<Rightarrow> nat \<Rightarrow> ('a::{zero,plus,times}) tensor \<Rightarrow> 'a tensor" where
  "reconstructed N CI CV =
     \<lparr>dims = [N, N, N, N],
      elems = mult_elems [label_of N P, label_of N R, label_of N Q, label_of N S]
                CV [label_of N P, label_of N R, label_of CI Cindex]
                CV [label_of N Q, label_of N S, label_of CI Cindex]\<rparr>"

text \<open>The events of lines 123 to 146 in a run that completes.\<close>

definition export_events :: "SystemData \<Rightarrow> bool \<Rightarrow> event list" where
  "export_events sys dir_exists =
     [EvBarrier, EvAllocate Full_v2, EvMult Full_v2 CholVpr CholVpr, EvDeallocate CholVpr,
      EvAllocate Hcore, EvAllocate Hcore_mo]
     @ (if dir_exists then [] else [EvMkdir (fci_files_dir sys)])
     @ [EvRead Hcore (hcorefile sys), EvAllocate Tmp, EvMult Tmp Lcao Hcore,
        EvMult Hcore_mo Tmp Lcao, EvDeallocate Tmp, EvDeallocate Hcore,
        EvExport (fcid_file sys), EvDeallocate Hcore_mo,
        EvDeallocate Lcao, EvDeallocate D_f1, EvDeallocate Full_v2, EvFlushSync]"

text \<open>The events of the persist branch in a run that completes.\<close>

definition persist_events :: "SystemData \<Rightarrow> nat \<Rightarrow> nat \<Rightarrow> 'a world \<Rightarrow> event list" where
  "persist_events sys rk n w =
     (if fs_exists w (files_dir sys) then [] else [EvMkdir (files_dir sys)])
     @ [EvWrite D_f1 (f1file sys), EvWrite CholVpr (v2file sys)]
     @ (if rk = 0
        then [if can_open_out w (cholfile sys)
              then EvWriteText (cholfile sys) (dec n @ [CHR 0x0A])
              else EvStderr (''Error opening file '' @ cholfile sys @ [CHR 0x0A])]
        else [])"

text \<open>What \<open>cd_svd_driver\<close> returns in a run, and the world the driver continues in.\<close>

definition cd_of :: "'a upstream \<Rightarrow> 'a world \<Rightarrow> 'a cd_svd_result" where
  "cd_of up w0 =
     cd_svd_driver up (ccsd_restart (hf_sys_data up) w0) (cholfile (hf_sys_data up)) (files w0)"

definition after_cd_svd :: "'a upstream \<Rightarrow> 'a world \<Rightarrow> 'a world" where
  "after_cd_svd up w0 =
     w0\<lparr>store := (store w0)(CholVpr \<mapsto> cd_cholVpr (cd_of up w0), D_f1 \<mapsto> cd_d_f1 (cd_of up w0),
                            Lcao \<mapsto> cd_lcao (cd_of up w0))\<rparr>"

text \<open>Matrices as the words of the design have them: product and transpose.\<close>

definition mat_of :: "'a tensor \<Rightarrow> nat \<Rightarrow> nat \<Rightarrow> 'a" where
  "mat_of t i j = elems t [i, j]"

definition mat_transpose :: "(nat \<Rightarrow> nat \<Rightarrow> 'a) \<Rightarrow> nat \<Rightarrow> nat \<Rightarrow> 'a" where
  "mat_transpose A i j = A j i"

definition mat_mult ::
  "nat \<Rightarrow> (nat \<Rightarrow> nat \<Rightarrow> 'a::semiring_0) \<Rightarrow> (nat \<Rightarrow> nat \<Rightarrow> 'a) \<Rightarrow> nat \<Rightarrow> nat \<Rightarrow> 'a" where
  "mat_mult n A B i j = (\<Sum>k<n. A i k * B k j)"

text \<open>The same system data with other checkpoint flags.\<close>

definition with_flags :: "bool \<Rightarrow> bool \<Rightarrow> SystemData \<Rightarrow> SystemData" where
  "with_flags rd wr sys =
     sys\<lparr>options_map := (options_map sys)
            \<lparr>ccsd_options := (ccsd_options (options_map sys))\<lparr>readt := rd, writet := wr\<rparr>\<rparr>\<rparr>"

text \<open>The same upstream results in a run started with other checkpoint flags.\<close>

definition with_run_flags :: "bool \<Rightarrow> bool \<Rightarrow> 'a upstream \<Rightarrow> 'a upstream" where
  "with_run_flags rd wr up = up\<lparr>hf_sys_data := with_flags rd wr (hf_sys_data up)\<rparr>"

text \<open>
  Reading the vector count back, as \<open>in >> chol_count\<close> reads a decimal number: the leading
  digits of the text, most significant first.
\<close>

definition digit_value :: "char \<Rightarrow> nat" where
  "digit_value c = of_char c - 48"

definition parse_nat :: "string \<Rightarrow> nat" where
  "parse_nat s = foldl (\<lambda>a c. 10 * a + digit_value c) 0 s"

definition read_count :: "string \<Rightarrow> nat" where
  "read_count t = parse_nat (takeWhile (\<lambda>c. c \<in> set ''0123456789'') t)"

text \<open>
  Modelled from the spec: \<open>cd_svd_driver\<close> is not part of the sources; this is the contract
  the restart relies on. Sections 3 and 6: the checkpoint is the one-electron operator file,
  the factorized-vector file and a companion text file holding a single integer, the vector
  count, and their consistency (same basis, same factorization rank) is the restart
  precondition; the upstream stage delivers the factorized vectors with a declared
  auxiliary-index size. When it computes, the count it returns is the extent of the auxiliary
  index space, the vectors have the shape orbitals by orbitals by that extent and the
  one-electron operator the shape orbitals by orbitals. In restart mode, on a disk whose count
  file holds the number \<open>n\<close> on a line, it declares an auxiliary index space of extent \<open>n\<close> and
  allocates tensors of these shapes for the driver to fill from the checkpoint, and it
  delivers the LCAO coefficients it delivers when it computes.
\<close>

definition cd_svd_contract :: "'a upstream \<Rightarrow> bool" where
  "cd_svd_contract up \<longleftrightarrow>
     (\<forall>fs. cd_chol_count (cd_svd_driver up False (cholfile (hf_sys_data up)) fs)
             = cd_CI (cd_svd_driver up False (cholfile (hf_sys_data up)) fs)
           \<and> dims (cd_cholVpr (cd_svd_driver up False (cholfile (hf_sys_data up)) fs))
             = [mo_space up, mo_space up,
                cd_CI (cd_svd_driver up False (cholfile (hf_sys_data up)) fs)]
           \<and> dims (cd_d_f1 (cd_svd_driver up False (cholfile (hf_sys_data up)) fs))
             = [mo_space up, mo_space up])
     \<and> (\<forall>fs fs' n.
           fs (cholfile (hf_sys_data up)) = Some (TextFile (dec n @ [CHR 0x0A])) \<longrightarrow>
             cd_CI (cd_svd_driver up True (cholfile (hf_sys_data up)) fs) = n
             \<and> dims (cd_cholVpr (cd_svd_driver up True (cholfile (hf_sys_data up)) fs))
               = [mo_space up, mo_space up, n]
             \<and> dims (cd_d_f1 (cd_svd_driver up True (cholfile (hf_sys_data up)) fs))
               = [mo_space up, mo_space up]
             \<and> cd_lcao (cd_svd_driver up True (cholfile (hf_sys_data up)) fs)
               = cd_lcao (cd_svd_driver up False (cholfile (hf_sys_data up)) fs'))"

subsection \<open>A small system\<close>

text \<open>
  Two orbitals, three auxiliary vectors, integer tensor elements: the input at which the
  properties below are instantiated.
\<close>

definition sys_h2 :: SystemData where
  "sys_h2 =
     \<lparr>output_file_prefix = ''h2'',
      options_map =
        \<lparr>ccsd_options = \<lparr>basis = ''sto'', readt = False, writet = False\<rparr>,
         scf_options = \<lparr>scf_type = ''r''\<rparr>\<rparr>,
      nbf_orig = 2,
      is_unrestricted = False\<rparr>"

definition hcore_h2 :: "int tensor" where
  "hcore_h2 = \<lparr>dims = [2, 2], elems = (\<lambda>i. int (sum_list i) + 1)\<rparr>"

definition cd_h2 :: "int cd_svd_result" where
  "cd_h2 =
     \<lparr>cd_cholVpr = \<lparr>dims = [2, 2, 3], elems = (\<lambda>i. int (sum_list i))\<rparr>,
      cd_d_f1 = \<lparr>dims = [2, 2], elems = (\<lambda>i. int (sum_list i) + 2)\<rparr>,
      cd_lcao = \<lparr>dims = [2, 2], elems = (\<lambda>i. 2 * int (sum_list i) + 1)\<rparr>,
      cd_chol_count = 3,
      cd_CI = 3\<rparr>"

definition up_h2 :: "nat \<Rightarrow> SystemData \<Rightarrow> int upstream" where
  "up_h2 rk sys =
     \<lparr>pg_rank = rk, hf_sys_data = sys, mo_space = 2, cd_svd_driver = (\<lambda>_ _ _. cd_h2)\<rparr>"

text \<open>
  An upstream whose \<open>cd_svd_driver\<close>, in restart mode, reads the vector count from the count
  file and delivers the one-electron operator and the vectors allocated and still zero, to
  be filled from the checkpoint.
\<close>

definition cd_restart_h2 :: "nat \<Rightarrow> int cd_svd_result" where
  "cd_restart_h2 n =
     \<lparr>cd_cholVpr = \<lparr>dims = [2, 2, n], elems = (\<lambda>_. 0)\<rparr>,
      cd_d_f1 = \<lparr>dims = [2, 2], elems = (\<lambda>_. 0)\<rparr>,
      cd_lcao = cd_lcao cd_h2,
      cd_chol_count = n,
      cd_CI = n\<rparr>"

definition up_rs_h2 :: "int upstream" where
  "up_rs_h2 =
     \<lparr>pg_rank = 0, hf_sys_data = sys_h2, mo_space = 2,
      cd_svd_driver =
        (\<lambda>restart f fs.
           if restart
           then (case fs f of Some (TextFile t) \<Rightarrow> cd_restart_h2 (read_count t)
                 | _ \<Rightarrow> cd_restart_h2 0)
           else cd_h2)\<rparr>"

text \<open>The disk after the SCF stage: the atomic-basis operator, and nothing else.\<close>

definition w_h2 :: "int world" where
  "w_h2 =
     \<lparr>files = (\<lambda>_. None)(hcorefile sys_h2 \<mapsto> TensorFile hcore_h2),
      unwritable = {},
      store = (\<lambda>_. None),
      trace = []\<rparr>"

text \<open>An empty disk, and a disk that holds the checkpoint directory and nothing else.\<close>

definition w_empty_h2 :: "int world" where
  "w_empty_h2 = \<lparr>files = (\<lambda>_. None), unwritable = {}, store = (\<lambda>_. None), trace = []\<rparr>"

definition w_dir_h2 :: "int world" where
  "w_dir_h2 = w_empty_h2\<lparr>files := (\<lambda>_. None)(files_dir sys_h2 \<mapsto> Dir)\<rparr>"

text \<open>The same disk with a checkpoint on it; the stored vectors differ from \<open>cd_h2\<close>'s.\<close>

definition cholv2_h2 :: "int tensor" where
  "cholv2_h2 = \<lparr>dims = [2, 2, 3], elems = (\<lambda>i. 2 * int (sum_list i))\<rparr>"

definition w_ckpt_h2 :: "int world" where
  "w_ckpt_h2 =
     w_h2\<lparr>files := (files w_h2)(f1file sys_h2 \<mapsto> TensorFile (cd_d_f1 cd_h2),
                                 v2file sys_h2 \<mapsto> TensorFile cholv2_h2)\<rparr>"

text \<open>The disk after the SCF stage, with the count file refused for writing.\<close>

definition w_ro_h2 :: "int world" where
  "w_ro_h2 = w_h2\<lparr>unwritable := {cholfile sys_h2}\<rparr>"

text \<open>The world in which the driver calls \<open>generate_fcidump\<close>.\<close>

definition wg_h2 :: "int world" where
  "wg_h2 =
     w_h2\<lparr>store := (\<lambda>_. None)(Lcao \<mapsto> cd_lcao cd_h2, D_f1 \<mapsto> cd_d_f1 cd_h2,
                                 Full_v2 \<mapsto> reconstructed 2 3 (cd_cholVpr cd_h2))\<rparr>"

section \<open>Properties\<close>

subsection \<open>File names\<close>

lemmas path_defs = out_fp_def files_dir_def files_prefix_def f1file_def v2file_def cholfile_def
  fci_files_dir_def fci_files_prefix_def hcorefile_def fcid_file_def

lemma neq_by_length: "length xs \<noteq> length ys \<Longrightarrow> xs \<noteq> ys"
  by auto

lemma neq_by_last: "last xs \<noteq> last ys \<Longrightarrow> xs \<noteq> ys"
  by auto

lemma files_dir_distinct:
  "files_dir sys \<noteq> f1file sys" "files_dir sys \<noteq> v2file sys" "files_dir sys \<noteq> cholfile sys"
  "files_dir sys \<noteq> fci_files_dir sys" "files_dir sys \<noteq> hcorefile sys"
  "files_dir sys \<noteq> fcid_file sys"
  by (rule neq_by_length, simp add: path_defs)+

lemma fci_files_dir_distinct:
  "fci_files_dir sys \<noteq> f1file sys" "fci_files_dir sys \<noteq> v2file sys"
  "fci_files_dir sys \<noteq> cholfile sys" "fci_files_dir sys \<noteq> hcorefile sys"
  "fci_files_dir sys \<noteq> fcid_file sys"
  by (rule neq_by_length, simp add: path_defs)+

lemma file_names_distinct:
  "f1file sys \<noteq> v2file sys" "f1file sys \<noteq> cholfile sys" "v2file sys \<noteq> cholfile sys"
  "f1file sys \<noteq> hcorefile sys" "v2file sys \<noteq> hcorefile sys" "cholfile sys \<noteq> hcorefile sys"
  "f1file sys \<noteq> fcid_file sys" "v2file sys \<noteq> fcid_file sys" "cholfile sys \<noteq> fcid_file sys"
  "hcorefile sys \<noteq> fcid_file sys"
  by (rule neq_by_last, simp add: path_defs)+

lemmas paths_distinct = files_dir_distinct fci_files_dir_distinct file_names_distinct
  files_dir_distinct[symmetric] fci_files_dir_distinct[symmetric] file_names_distinct[symmetric]

lemma with_flags_paths [simp]:
  "files_dir (with_flags rd wr sys) = files_dir sys"
  "f1file (with_flags rd wr sys) = f1file sys"
  "v2file (with_flags rd wr sys) = v2file sys"
  "cholfile (with_flags rd wr sys) = cholfile sys"
  "fci_files_dir (with_flags rd wr sys) = fci_files_dir sys"
  "fci_files_prefix (with_flags rd wr sys) = fci_files_prefix sys"
  "hcorefile (with_flags rd wr sys) = hcorefile sys"
  "fcid_file (with_flags rd wr sys) = fcid_file sys"
  by (simp_all add: path_defs with_flags_def)

lemma with_flags_sel [simp]:
  "readt (ccsd_options (options_map (with_flags rd wr sys))) = rd"
  "writet (ccsd_options (options_map (with_flags rd wr sys))) = wr"
  "nbf_orig (with_flags rd wr sys) = nbf_orig sys"
  "is_unrestricted (with_flags rd wr sys) = is_unrestricted sys"
  by (simp_all add: with_flags_def)

subsection \<open>Results\<close>

lemma andthen_Done_iff:
  "andthen r f = Done x w' \<longleftrightarrow> (\<exists>y w1. r = Done y w1 \<and> f y w1 = Done x w')"
  by (cases r) auto

lemma succeeded_Done: "succeeded r \<Longrightarrow> r = Done () (final r)"
  by (cases r) auto

lemma succeeded_DoneE: "succeeded r \<Longrightarrow> \<exists>x. r = Done x (final r)"
  by (cases r) auto

lemma new_events_append: "trace (final r) = trace w0 @ evs \<Longrightarrow> new_events w0 r = evs"
  by (simp add: new_events_def)

lemmas exec_defs = allocate_def free_tensors_def barrier_def flush_and_sync_def allocate1_def
  deallocate1_def log_def read_from_disk_def write_to_disk_def create_directories_def
  ensure_directory_def write_fcidump_file_def Let_def can_open_out_def fs_exists_def

subsection \<open>Contractions and sums\<close>

lemma mult_elems_v2:
  "mult_elems [label_of n P, label_of n R, label_of n Q, label_of n S]
      A [label_of n P, label_of n R, label_of m Cindex]
      B [label_of n Q, label_of n S, label_of m Cindex] [i, j, k, l]
   = accumulate (map (\<lambda>c. elems A [i, j, c] * elems B [k, l, c]) [0..<m])"
  by (simp add: mult_elems_def contracted_def label_of_def idx_def comp_def)

lemma mult_elems_tmp:
  "mult_elems [label_of n Z1, label_of a Nu]
      L [label_of a Mu, label_of n Z1]
      H [label_of a Mu, label_of a Nu] [i, j]
   = accumulate (map (\<lambda>m. elems L [m, i] * elems H [m, j]) [0..<a])"
  by (simp add: mult_elems_def contracted_def label_of_def idx_def comp_def)

lemma mult_elems_hmo:
  "mult_elems [label_of n Z1, label_of n Z2]
      T [label_of n Z1, label_of a Nu]
      L [label_of a Nu, label_of n Z2] [i, j]
   = accumulate (map (\<lambda>v. elems T [i, v] * elems L [v, j]) [0..<a])"
  by (simp add: mult_elems_def contracted_def label_of_def idx_def comp_def)

lemma accumulate_sum:
  fixes f :: "nat \<Rightarrow> 'a::comm_monoid_add"
  shows "accumulate (map f [0..<n]) = (\<Sum>k<n. f k)"
  by (induction n) (simp_all add: accumulate_def)

lemma mat_mult_assoc:
  fixes A B C :: "nat \<Rightarrow> nat \<Rightarrow> 'a::semiring_0"
  shows "mat_mult n (mat_mult m A B) C i j = mat_mult m A (mat_mult n B C) i j"
proof -
  have "mat_mult n (mat_mult m A B) C i j = (\<Sum>k<n. \<Sum>l<m. A i l * B l k * C k j)"
    by (simp add: mat_mult_def sum_distrib_right)
  also have "\<dots> = (\<Sum>l<m. \<Sum>k<n. A i l * B l k * C k j)"
    by (rule sum.swap)
  also have "\<dots> = mat_mult m A (mat_mult n B C) i j"
    by (simp add: mat_mult_def sum_distrib_left mult.assoc)
  finally show ?thesis .
qed

lemma rotated_elems:
  fixes L H :: "('a::semiring_0) tensor"
  shows "elems (rotated MSO AO L H) [z1, z2] =
     accumulate (map (\<lambda>nu. accumulate (map (\<lambda>mu. elems L [mu, z1] * elems H [mu, nu]) [0..<AO])
                            * elems L [nu, z2]) [0..<AO])"
  by (simp add: rotated_def mult_elems_hmo mult_elems_tmp)

lemma rotated_mat_mult:
  fixes L H :: "('a::semiring_0) tensor"
  shows "elems (rotated MSO AO L H) [z1, z2] =
     mat_mult AO (mat_mult AO (mat_transpose (mat_of L)) (mat_of H)) (mat_of L) z1 z2"
  by (simp add: rotated_elems accumulate_sum mat_mult_def mat_transpose_def mat_of_def)

subsection \<open>Export stage\<close>

lemma generate_fcidump_Done:
  assumes "generate_fcidump sys MSO (Lcao, dl) (D_f1, dd) (Full_v2, dv) w = Done r w'"
  shows "\<exists>AO rest H L V.
     dl = AO # rest \<and> files w (hcorefile sys) = Some (TensorFile H) \<and> dims H = [AO, AO]
     \<and> store w Lcao = Some L \<and> store w Full_v2 = Some V
     \<and> r = fci_files_prefix sys
     \<and> unwritable w' = unwritable w \<and> can_open_out w (fcid_file sys)
     \<and> trace w' = trace w @ [EvAllocate Hcore, EvAllocate Hcore_mo]
          @ (if fs_exists w (fci_files_dir sys) then [] else [EvMkdir (fci_files_dir sys)])
          @ [EvRead Hcore (hcorefile sys), EvAllocate Tmp, EvMult Tmp Lcao Hcore,
             EvMult Hcore_mo Tmp Lcao, EvDeallocate Tmp, EvDeallocate Hcore,
             EvExport (fcid_file sys), EvDeallocate Hcore_mo]
     \<and> store w' = (store w)(Hcore := None, Hcore_mo := None, Tmp := None)
     \<and> files w' = (if fs_exists w (fci_files_dir sys) then files w
                    else (files w)(fci_files_dir sys \<mapsto> Dir))
                   (fcid_file sys \<mapsto> FcidumpFile (rotated MSO AO L H) V (symvec sys))"
  using assms
  by (auto simp: generate_fcidump_def rotation_ops_def exec_defs paths_distinct rotated_def
           split: list.splits option.splits node.splits if_splits)

lemma generate_fcidump_succeeds:
  assumes "dl = AO # rest" and "files w (hcorefile sys) = Some (TensorFile H)"
    and "dims H = [AO, AO]" and "store w Lcao = Some L" and "store w Full_v2 = Some V"
    and "fs_exists w (fci_files_dir sys) \<or> fci_files_dir sys \<notin> unwritable w"
    and "can_open_out w (fcid_file sys)"
  shows "succeeded (generate_fcidump sys MSO (Lcao, dl) (D_f1, dd) (Full_v2, dv) w)"
  using assms
  by (auto simp: generate_fcidump_def rotation_ops_def exec_defs paths_distinct)

lemma reconstruct_and_export_Done:
  assumes run: "reconstruct_and_export sys N CI (CholVpr, dc) (D_f1, dd) (Lcao, dl) w = Done u w'"
  shows "\<exists>AO rest H L CV.
     dl = AO # rest \<and> files w (hcorefile sys) = Some (TensorFile H) \<and> dims H = [AO, AO]
     \<and> store w Lcao = Some L \<and> store w CholVpr = Some CV
     \<and> unwritable w' = unwritable w \<and> can_open_out w (fcid_file sys)
     \<and> trace w' = trace w @ export_events sys (fs_exists w (fci_files_dir sys))
     \<and> (\<forall>t. store w' t = (if t \<in> {Hcore, Hcore_mo, Tmp, CholVpr, Lcao, D_f1, Full_v2}
                             then None else store w t))
     \<and> files w' = (if fs_exists w (fci_files_dir sys) then files w
                    else (files w)(fci_files_dir sys \<mapsto> Dir))
                   (fcid_file sys \<mapsto>
                      FcidumpFile (rotated N AO L H) (reconstructed N CI CV) (symvec sys))"
proof -
  from run obtain CV where cv: "store w CholVpr = Some CV"
    by (auto simp: reconstruct_and_export_def reconstruction_ops_def exec_defs
             split: option.splits)
  define w2 where "w2 = w\<lparr>trace := trace w @ [EvBarrier, EvAllocate Full_v2,
                               EvMult Full_v2 CholVpr CholVpr, EvDeallocate CholVpr],
                          store := (store w)(Full_v2 \<mapsto> reconstructed N CI CV,
                                             CholVpr := None)\<rparr>"
  have pre: "reconstruct_and_export sys N CI (CholVpr, dc) (D_f1, dd) (Lcao, dl) w =
      andthen (generate_fcidump sys N (Lcao, dl) (D_f1, dd) (Full_v2, [N, N, N, N]) w2) (\<lambda>_ w.
      andthen (free_tensors [(Lcao, dl), (D_f1, dd), (Full_v2, [N, N, N, N])] w) (\<lambda>_ w.
      flush_and_sync w))"
    using cv
    by (simp add: reconstruct_and_export_def reconstruction_ops_def exec_defs w2_def
          reconstructed_def fun_upd_twist)
  from run obtain r w3 where
    g: "generate_fcidump sys N (Lcao, dl) (D_f1, dd) (Full_v2, [N, N, N, N]) w2 = Done r w3"
    and w': "w' = w3\<lparr>trace := trace w3 @ [EvDeallocate Lcao, EvDeallocate D_f1,
                                           EvDeallocate Full_v2, EvFlushSync],
                      store := (store w3)(Lcao := None, D_f1 := None, Full_v2 := None)\<rparr>"
    unfolding pre by (auto simp: andthen_Done_iff exec_defs)
  from generate_fcidump_Done [OF g] obtain AO rest H L V where
    f: "dl = AO # rest" "files w2 (hcorefile sys) = Some (TensorFile H)" "dims H = [AO, AO]"
       "store w2 Lcao = Some L" "store w2 Full_v2 = Some V"
       "unwritable w3 = unwritable w2" "can_open_out w2 (fcid_file sys)"
       "trace w3 = trace w2 @ [EvAllocate Hcore, EvAllocate Hcore_mo]
          @ (if fs_exists w2 (fci_files_dir sys) then [] else [EvMkdir (fci_files_dir sys)])
          @ [EvRead Hcore (hcorefile sys), EvAllocate Tmp, EvMult Tmp Lcao Hcore,
             EvMult Hcore_mo Tmp Lcao, EvDeallocate Tmp, EvDeallocate Hcore,
             EvExport (fcid_file sys), EvDeallocate Hcore_mo]"
       "store w3 = (store w2)(Hcore := None, Hcore_mo := None, Tmp := None)"
       "files w3 = (if fs_exists w2 (fci_files_dir sys) then files w2
                    else (files w2)(fci_files_dir sys \<mapsto> Dir))
                   (fcid_file sys \<mapsto> FcidumpFile (rotated N AO L H) V (symvec sys))"
    by blast
  have V: "V = reconstructed N CI CV" using f(5) by (simp add: w2_def)
  have co: "can_open_out w (fcid_file sys)"
    using f(7) by (simp add: can_open_out_def w2_def)
  have ex: "fs_exists w2 (fci_files_dir sys) = fs_exists w (fci_files_dir sys)"
    by (simp add: fs_exists_def w2_def)
  show ?thesis
    apply (rule exI [of _ AO], rule exI [of _ rest], rule exI [of _ H], rule exI [of _ L],
           rule exI [of _ CV])
    using f(1-6,8-10) cv co unfolding w' V ex
    by (simp add: w2_def export_events_def)
qed

lemma reconstruct_and_export_succeeds:
  assumes "dl = AO # rest" and "files w (hcorefile sys) = Some (TensorFile H)"
    and "dims H = [AO, AO]" and "store w Lcao = Some L" and "store w CholVpr = Some CV"
    and "fs_exists w (fci_files_dir sys) \<or> fci_files_dir sys \<notin> unwritable w"
    and "can_open_out w (fcid_file sys)"
  shows "succeeded (reconstruct_and_export sys N CI (CholVpr, dc) (D_f1, dd) (Lcao, dl) w)"
  using assms
  by (auto simp: reconstruct_and_export_def reconstruction_ops_def
                 generate_fcidump_def rotation_ops_def exec_defs paths_distinct)

lemma reconstruct_and_export_frame:
  fixes w :: "('a::{zero,plus,times}) world" and sys N CI dc dd dl
  defines "r \<equiv> reconstruct_and_export sys N CI (CholVpr, dc) (D_f1, dd) (Lcao, dl) w"
  shows "\<exists>evs. trace (final r) = trace w @ evs
           \<and> (\<forall>ev\<in>set evs. event_path ev
                 \<in> {None, Some (fci_files_dir sys), Some (hcorefile sys), Some (fcid_file sys)})"
    and "p \<noteq> fci_files_dir sys \<Longrightarrow> p \<noteq> fcid_file sys \<Longrightarrow> files (final r) p = files w p"
  unfolding r_def
  by (auto simp: reconstruct_and_export_def reconstruction_ops_def
                 generate_fcidump_def rotation_ops_def exec_defs
           split: list.splits option.splits node.splits if_splits)

subsection \<open>Checkpoint stage\<close>

lemma checkpoint_restore_Done:
  assumes "checkpoint True sys rk (D_f1, dd) (CholVpr, dc) n w = Done u w'"
    and "store w D_f1 = Some D0" and "store w CholVpr = Some C0"
  shows "\<exists>D1 CV.
     files w (f1file sys) = Some (TensorFile D1) \<and> dims D1 = dims D0
     \<and> files w (v2file sys) = Some (TensorFile CV) \<and> dims CV = dims C0
     \<and> w' = w\<lparr>store := (store w)(D_f1 \<mapsto> D1, CholVpr \<mapsto> CV),
               trace := trace w @ [EvRead D_f1 (f1file sys), EvRead CholVpr (v2file sys),
                                   EvBarrier]\<rparr>"
  using assms
  by (auto simp: checkpoint_def exec_defs split: option.splits node.splits if_splits)

lemma checkpoint_restore_succeeds:
  assumes "files w (f1file sys) = Some (TensorFile D1)" and "dims D1 = dims D0"
    and "files w (v2file sys) = Some (TensorFile CV)" and "dims CV = dims C0"
    and "store w D_f1 = Some D0" and "store w CholVpr = Some C0"
  shows "checkpoint True sys rk (D_f1, dd) (CholVpr, dc) n w =
     Done () (w\<lparr>store := (store w)(D_f1 \<mapsto> D1, CholVpr \<mapsto> CV),
               trace := trace w @ [EvRead D_f1 (f1file sys), EvRead CholVpr (v2file sys),
                                   EvBarrier]\<rparr>)"
  using assms
  by (auto simp: checkpoint_def exec_defs)

lemma checkpoint_persist_Done:
  assumes "checkpoint False sys rk (D_f1, dd) (CholVpr, dc) n w = Done u w'"
    and "writet (ccsd_options (options_map sys))"
    and "store w D_f1 = Some D0" and "store w CholVpr = Some C0"
  shows "files w' (f1file sys) = Some (TensorFile D0)"
    and "files w' (v2file sys) = Some (TensorFile C0)"
    and "files w' (cholfile sys) =
           (if rk = 0 \<and> can_open_out w (cholfile sys)
            then Some (TextFile (dec n @ [CHR 0x0A])) else files w (cholfile sys))"
    and "files w' (files_dir sys) =
           (if fs_exists w (files_dir sys) then files w (files_dir sys) else Some Dir)"
    and "p \<notin> {files_dir sys, f1file sys, v2file sys, cholfile sys} \<Longrightarrow> files w' p = files w p"
    and "store w' = store w" and "unwritable w' = unwritable w"
    and "trace w' = trace w @ persist_events sys rk n w"
    and "fs_exists w (files_dir sys) \<or> files_dir sys \<notin> unwritable w"
    and "can_open_out w (f1file sys)" and "can_open_out w (v2file sys)"
  using assms
  by (auto simp: checkpoint_def write_count_def exec_defs paths_distinct persist_events_def
        split: option.splits if_splits)

lemma checkpoint_persist_succeeds:
  assumes "writet (ccsd_options (options_map sys))"
    and "store w D_f1 = Some D0" and "store w CholVpr = Some C0"
    and "fs_exists w (files_dir sys) \<or> files_dir sys \<notin> unwritable w"
    and "can_open_out w (f1file sys)" and "can_open_out w (v2file sys)"
  shows "succeeded (checkpoint False sys rk (D_f1, dd) (CholVpr, dc) n w)"
  using assms
  by (auto simp: checkpoint_def write_count_def exec_defs paths_distinct)

lemma checkpoint_ephemeral:
  assumes "\<not> writet (ccsd_options (options_map sys))"
  shows "checkpoint False sys rk d_f1 cholVpr n w = Done () w"
  using assms by (simp add: checkpoint_def)

lemma checkpoint_frame:
  fixes w :: "'a world" and sys rk dd dc n
  defines "r \<equiv> checkpoint False sys rk (D_f1, dd) (CholVpr, dc) n w"
  shows "\<exists>evs. trace (final r) = trace w @ evs
           \<and> (\<forall>ev\<in>set evs. ev \<noteq> EvRead D_f1 (f1file sys))"
  unfolding r_def
  by (auto simp: checkpoint_def write_count_def exec_defs paths_distinct
           split: option.splits if_splits)

lemma checkpoint_restore_frame:
  fixes w :: "'a world" and sys rk dd dc n
  defines "r \<equiv> checkpoint True sys rk (D_f1, dd) (CholVpr, dc) n w"
  shows "\<exists>evs. trace (final r) = trace w @ EvRead D_f1 (f1file sys) # evs"
  unfolding r_def
  by (auto simp: checkpoint_def exec_defs split: option.splits node.splits if_splits)

subsection \<open>The driver, branch by branch\<close>

lemma fci_driver_unfold:
  "fci_driver up w0 =
     andthen (checkpoint (ccsd_restart (hf_sys_data up) w0) (hf_sys_data up) (pg_rank up)
                (D_f1, dims (cd_d_f1 (cd_of up w0))) (CholVpr, dims (cd_cholVpr (cd_of up w0)))
                (cd_chol_count (cd_of up w0)) (after_cd_svd up w0))
       (\<lambda>_ w. reconstruct_and_export (hf_sys_data up) (mo_space up) (cd_CI (cd_of up w0))
                 (CholVpr, dims (cd_cholVpr (cd_of up w0))) (D_f1, dims (cd_d_f1 (cd_of up w0)))
                 (Lcao, dims (cd_lcao (cd_of up w0))) w)"
  by (simp add: fci_driver_def cd_of_def after_cd_svd_def Let_def)

lemma after_cd_svd_sel [simp]:
  "files (after_cd_svd up w0) = files w0"
  "unwritable (after_cd_svd up w0) = unwritable w0"
  "trace (after_cd_svd up w0) = trace w0"
  "store (after_cd_svd up w0) D_f1 = Some (cd_d_f1 (cd_of up w0))"
  "store (after_cd_svd up w0) CholVpr = Some (cd_cholVpr (cd_of up w0))"
  "store (after_cd_svd up w0) Lcao = Some (cd_lcao (cd_of up w0))"
  "fs_exists (after_cd_svd up w0) p = fs_exists w0 p"
  "can_open_out (after_cd_svd up w0) p = can_open_out w0 p"
  by (simp_all add: after_cd_svd_def fs_exists_def can_open_out_def)

lemma fci_driver_restore_Done:
  fixes up :: "('a::{zero,plus,times}) upstream"
  assumes ok: "succeeded (fci_driver up w0)" and br: "ccsd_restart (hf_sys_data up) w0"
  shows "\<exists>D1 CV AO rest H.
     files w0 (f1file (hf_sys_data up)) = Some (TensorFile D1)
     \<and> dims D1 = dims (cd_d_f1 (cd_of up w0))
     \<and> files w0 (v2file (hf_sys_data up)) = Some (TensorFile CV)
     \<and> dims CV = dims (cd_cholVpr (cd_of up w0))
     \<and> dims (cd_lcao (cd_of up w0)) = AO # rest
     \<and> files w0 (hcorefile (hf_sys_data up)) = Some (TensorFile H) \<and> dims H = [AO, AO]
     \<and> trace (final (fci_driver up w0)) = trace w0
          @ [EvRead D_f1 (f1file (hf_sys_data up)), EvRead CholVpr (v2file (hf_sys_data up)),
             EvBarrier]
          @ export_events (hf_sys_data up) (fs_exists w0 (fci_files_dir (hf_sys_data up)))
     \<and> files (final (fci_driver up w0)) =
          (if fs_exists w0 (fci_files_dir (hf_sys_data up)) then files w0
           else (files w0)(fci_files_dir (hf_sys_data up) \<mapsto> Dir))
          (fcid_file (hf_sys_data up) \<mapsto>
             FcidumpFile (rotated (mo_space up) AO (cd_lcao (cd_of up w0)) H)
               (reconstructed (mo_space up) (cd_CI (cd_of up w0)) CV)
               (symvec (hf_sys_data up)))
     \<and> unwritable (final (fci_driver up w0)) = unwritable w0
     \<and> fcid_file (hf_sys_data up) \<notin> unwritable w0"
proof -
  from succeeded_Done [OF ok] obtain w' where
    run: "fci_driver up w0 = Done () w'" and w': "w' = final (fci_driver up w0)"
    by simp
  from run br obtain u wc where
    c: "checkpoint True (hf_sys_data up) (pg_rank up)
          (D_f1, dims (cd_d_f1 (cd_of up w0))) (CholVpr, dims (cd_cholVpr (cd_of up w0)))
          (cd_chol_count (cd_of up w0)) (after_cd_svd up w0) = Done u wc"
    and e: "reconstruct_and_export (hf_sys_data up) (mo_space up) (cd_CI (cd_of up w0))
              (CholVpr, dims (cd_cholVpr (cd_of up w0))) (D_f1, dims (cd_d_f1 (cd_of up w0)))
              (Lcao, dims (cd_lcao (cd_of up w0))) wc = Done () w'"
    by (auto simp: fci_driver_unfold andthen_Done_iff)
  from checkpoint_restore_Done [OF c after_cd_svd_sel(4) after_cd_svd_sel(5)] obtain D1 CV where
    d: "files w0 (f1file (hf_sys_data up)) = Some (TensorFile D1)"
       "dims D1 = dims (cd_d_f1 (cd_of up w0))"
       "files w0 (v2file (hf_sys_data up)) = Some (TensorFile CV)"
       "dims CV = dims (cd_cholVpr (cd_of up w0))"
    and wc: "wc = (after_cd_svd up w0)
               \<lparr>store := (store (after_cd_svd up w0))(D_f1 \<mapsto> D1, CholVpr \<mapsto> CV),
                trace := trace (after_cd_svd up w0)
                   @ [EvRead D_f1 (f1file (hf_sys_data up)),
                      EvRead CholVpr (v2file (hf_sys_data up)), EvBarrier]\<rparr>"
    by auto
  from reconstruct_and_export_Done [OF e] obtain AO rest H L CV' where
    x: "dims (cd_lcao (cd_of up w0)) = AO # rest"
       "files wc (hcorefile (hf_sys_data up)) = Some (TensorFile H)" "dims H = [AO, AO]"
       "store wc Lcao = Some L" "store wc CholVpr = Some CV'"
       "unwritable w' = unwritable wc"
       "can_open_out wc (fcid_file (hf_sys_data up))"
       "trace w' = trace wc
          @ export_events (hf_sys_data up) (fs_exists wc (fci_files_dir (hf_sys_data up)))"
       "files w' = (if fs_exists wc (fci_files_dir (hf_sys_data up)) then files wc
                    else (files wc)(fci_files_dir (hf_sys_data up) \<mapsto> Dir))
                   (fcid_file (hf_sys_data up) \<mapsto>
                      FcidumpFile (rotated (mo_space up) AO L H)
                        (reconstructed (mo_space up) (cd_CI (cd_of up w0)) CV')
                        (symvec (hf_sys_data up)))"
    by blast
  have L: "L = cd_lcao (cd_of up w0)" and CV': "CV' = CV"
    using x(4,5) by (simp_all add: wc)
  have ex: "fs_exists wc p = fs_exists w0 p" for p
    by (simp add: wc fs_exists_def)
  have co: "fcid_file (hf_sys_data up) \<notin> unwritable w0"
    using x(7) by (simp add: can_open_out_def wc)
  show ?thesis
    apply (rule exI [of _ D1], rule exI [of _ CV], rule exI [of _ AO], rule exI [of _ rest],
           rule exI [of _ H])
    using d x(1-6,8-) co unfolding w' [symmetric] L CV' ex
    by (simp add: wc)
qed

lemma persist_events_after_cd_svd [simp]:
  "persist_events sys rk n (after_cd_svd up w0) = persist_events sys rk n w0"
  by (simp add: persist_events_def)

lemma fci_driver_persist_Done:
  fixes up :: "('a::{zero,plus,times}) upstream"
  assumes ok: "succeeded (fci_driver up w0)" and br: "\<not> ccsd_restart (hf_sys_data up) w0"
    and wr: "writet (ccsd_options (options_map (hf_sys_data up)))"
  shows "\<exists>AO rest H.
     dims (cd_lcao (cd_of up w0)) = AO # rest
     \<and> files w0 (hcorefile (hf_sys_data up)) = Some (TensorFile H) \<and> dims H = [AO, AO]
     \<and> trace (final (fci_driver up w0)) = trace w0
          @ persist_events (hf_sys_data up) (pg_rank up) (cd_chol_count (cd_of up w0)) w0
          @ export_events (hf_sys_data up) (fs_exists w0 (fci_files_dir (hf_sys_data up)))
     \<and> files (final (fci_driver up w0)) (fcid_file (hf_sys_data up)) =
          Some (FcidumpFile (rotated (mo_space up) AO (cd_lcao (cd_of up w0)) H)
                  (reconstructed (mo_space up) (cd_CI (cd_of up w0)) (cd_cholVpr (cd_of up w0)))
                  (symvec (hf_sys_data up)))
     \<and> files (final (fci_driver up w0)) (f1file (hf_sys_data up))
          = Some (TensorFile (cd_d_f1 (cd_of up w0)))
     \<and> files (final (fci_driver up w0)) (v2file (hf_sys_data up))
          = Some (TensorFile (cd_cholVpr (cd_of up w0)))
     \<and> files (final (fci_driver up w0)) (cholfile (hf_sys_data up)) =
          (if pg_rank up = 0 \<and> can_open_out w0 (cholfile (hf_sys_data up))
           then Some (TextFile (dec (cd_chol_count (cd_of up w0)) @ [CHR 0x0A]))
           else files w0 (cholfile (hf_sys_data up)))
     \<and> files (final (fci_driver up w0)) (files_dir (hf_sys_data up)) =
          (if fs_exists w0 (files_dir (hf_sys_data up)) then files w0 (files_dir (hf_sys_data up))
           else Some Dir)
     \<and> files (final (fci_driver up w0)) (fci_files_dir (hf_sys_data up)) =
          (if fs_exists w0 (fci_files_dir (hf_sys_data up))
           then files w0 (fci_files_dir (hf_sys_data up)) else Some Dir)
     \<and> files (final (fci_driver up w0)) (hcorefile (hf_sys_data up))
          = files w0 (hcorefile (hf_sys_data up))
     \<and> unwritable (final (fci_driver up w0)) = unwritable w0
     \<and> fcid_file (hf_sys_data up) \<notin> unwritable w0"
proof -
  let ?sys = "hf_sys_data up"
  from succeeded_Done [OF ok] obtain w' where
    run: "fci_driver up w0 = Done () w'" and w': "w' = final (fci_driver up w0)"
    by simp
  from run br obtain u wc where
    c: "checkpoint False ?sys (pg_rank up)
          (D_f1, dims (cd_d_f1 (cd_of up w0))) (CholVpr, dims (cd_cholVpr (cd_of up w0)))
          (cd_chol_count (cd_of up w0)) (after_cd_svd up w0) = Done u wc"
    and e: "reconstruct_and_export ?sys (mo_space up) (cd_CI (cd_of up w0))
              (CholVpr, dims (cd_cholVpr (cd_of up w0))) (D_f1, dims (cd_d_f1 (cd_of up w0)))
              (Lcao, dims (cd_lcao (cd_of up w0))) wc = Done () w'"
    by (auto simp: fci_driver_unfold andthen_Done_iff)
  note p = checkpoint_persist_Done [OF c wr after_cd_svd_sel(4) after_cd_svd_sel(5)]
  have other: "files wc q = files w0 q"
    if "q \<notin> {files_dir ?sys, f1file ?sys, v2file ?sys, cholfile ?sys}" for q
    using p(5) [OF that] by simp
  from reconstruct_and_export_Done [OF e] obtain AO rest H L CV' where
    x: "dims (cd_lcao (cd_of up w0)) = AO # rest"
       "files wc (hcorefile ?sys) = Some (TensorFile H)" "dims H = [AO, AO]"
       "store wc Lcao = Some L" "store wc CholVpr = Some CV'"
       "unwritable w' = unwritable wc"
       "can_open_out wc (fcid_file ?sys)"
       "trace w' = trace wc @ export_events ?sys (fs_exists wc (fci_files_dir ?sys))"
       "files w' = (if fs_exists wc (fci_files_dir ?sys) then files wc
                    else (files wc)(fci_files_dir ?sys \<mapsto> Dir))
                   (fcid_file ?sys \<mapsto>
                      FcidumpFile (rotated (mo_space up) AO L H)
                        (reconstructed (mo_space up) (cd_CI (cd_of up w0)) CV')
                        (symvec ?sys))"
    by blast
  have L: "L = cd_lcao (cd_of up w0)" and CV': "CV' = cd_cholVpr (cd_of up w0)"
    using x(4,5) by (simp_all add: p(6))
  have ex: "fs_exists wc (fci_files_dir ?sys) = fs_exists w0 (fci_files_dir ?sys)"
    by (simp add: fs_exists_def other paths_distinct)
  have hc: "files wc (hcorefile ?sys) = files w0 (hcorefile ?sys)"
    by (simp add: other paths_distinct)
  have co: "fcid_file ?sys \<notin> unwritable w0"
    using x(7) p(7) by (simp add: can_open_out_def)
  show ?thesis
    apply (rule exI [of _ AO], rule exI [of _ rest], rule exI [of _ H])
    using x(1-6,8-) co p(1-4,6-8) hc unfolding w' [symmetric] L CV' ex
    by (cases "fs_exists w0 (fci_files_dir ?sys)") (simp_all add: paths_distinct other)
qed

lemma fci_driver_ephemeral_Done:
  fixes up :: "('a::{zero,plus,times}) upstream"
  assumes ok: "succeeded (fci_driver up w0)" and br: "\<not> ccsd_restart (hf_sys_data up) w0"
    and wr: "\<not> writet (ccsd_options (options_map (hf_sys_data up)))"
  shows "\<exists>AO rest H.
     dims (cd_lcao (cd_of up w0)) = AO # rest
     \<and> files w0 (hcorefile (hf_sys_data up)) = Some (TensorFile H) \<and> dims H = [AO, AO]
     \<and> trace (final (fci_driver up w0)) = trace w0
          @ export_events (hf_sys_data up) (fs_exists w0 (fci_files_dir (hf_sys_data up)))
     \<and> files (final (fci_driver up w0)) =
          (if fs_exists w0 (fci_files_dir (hf_sys_data up)) then files w0
           else (files w0)(fci_files_dir (hf_sys_data up) \<mapsto> Dir))
          (fcid_file (hf_sys_data up) \<mapsto>
             FcidumpFile (rotated (mo_space up) AO (cd_lcao (cd_of up w0)) H)
               (reconstructed (mo_space up) (cd_CI (cd_of up w0)) (cd_cholVpr (cd_of up w0)))
               (symvec (hf_sys_data up)))
     \<and> unwritable (final (fci_driver up w0)) = unwritable w0
     \<and> fcid_file (hf_sys_data up) \<notin> unwritable w0"
proof -
  let ?sys = "hf_sys_data up"
  from succeeded_Done [OF ok] obtain w' where
    run: "fci_driver up w0 = Done () w'" and w': "w' = final (fci_driver up w0)"
    by simp
  from run br wr have
    e: "reconstruct_and_export ?sys (mo_space up) (cd_CI (cd_of up w0))
              (CholVpr, dims (cd_cholVpr (cd_of up w0))) (D_f1, dims (cd_d_f1 (cd_of up w0)))
              (Lcao, dims (cd_lcao (cd_of up w0))) (after_cd_svd up w0) = Done () w'"
    by (simp add: fci_driver_unfold checkpoint_ephemeral)
  from reconstruct_and_export_Done [OF e] obtain AO rest H L CV' where
    x: "dims (cd_lcao (cd_of up w0)) = AO # rest"
       "files (after_cd_svd up w0) (hcorefile ?sys) = Some (TensorFile H)" "dims H = [AO, AO]"
       "store (after_cd_svd up w0) Lcao = Some L" "store (after_cd_svd up w0) CholVpr = Some CV'"
       "unwritable w' = unwritable (after_cd_svd up w0)"
       "can_open_out (after_cd_svd up w0) (fcid_file ?sys)"
       "trace w' = trace (after_cd_svd up w0)
           @ export_events ?sys (fs_exists (after_cd_svd up w0) (fci_files_dir ?sys))"
       "files w' = (if fs_exists (after_cd_svd up w0) (fci_files_dir ?sys)
                    then files (after_cd_svd up w0)
                    else (files (after_cd_svd up w0))(fci_files_dir ?sys \<mapsto> Dir))
                   (fcid_file ?sys \<mapsto>
                      FcidumpFile (rotated (mo_space up) AO L H)
                        (reconstructed (mo_space up) (cd_CI (cd_of up w0)) CV')
                        (symvec ?sys))"
    by blast
  have L: "L = cd_lcao (cd_of up w0)" and CV': "CV' = cd_cholVpr (cd_of up w0)"
    using x(4,5) by simp_all
  have co: "fcid_file ?sys \<notin> unwritable w0"
    using x(7) by (simp add: can_open_out_def)
  show ?thesis
    apply (rule exI [of _ AO], rule exI [of _ rest], rule exI [of _ H])
    using x(1-6,8-) co unfolding w' [symmetric] L CV'
    by simp
qed

lemma fci_driver_restore_succeeds:
  fixes up :: "('a::{zero,plus,times}) upstream"
  assumes br: "ccsd_restart (hf_sys_data up) w0"
    and "files w0 (f1file (hf_sys_data up)) = Some (TensorFile DF)"
    and "dims DF = dims (cd_d_f1 (cd_of up w0))"
    and "files w0 (v2file (hf_sys_data up)) = Some (TensorFile CV)"
    and "dims CV = dims (cd_cholVpr (cd_of up w0))"
    and "dims (cd_lcao (cd_of up w0)) = AO # rest"
    and "files w0 (hcorefile (hf_sys_data up)) = Some (TensorFile H)" and "dims H = [AO, AO]"
    and "fs_exists w0 (fci_files_dir (hf_sys_data up))
         \<or> fci_files_dir (hf_sys_data up) \<notin> unwritable w0"
    and "can_open_out w0 (fcid_file (hf_sys_data up))"
  shows "succeeded (fci_driver up w0)"
proof -
  have c: "checkpoint True (hf_sys_data up) (pg_rank up)
          (D_f1, dims (cd_d_f1 (cd_of up w0))) (CholVpr, dims (cd_cholVpr (cd_of up w0)))
          (cd_chol_count (cd_of up w0)) (after_cd_svd up w0) =
        Done () ((after_cd_svd up w0)
               \<lparr>store := (store (after_cd_svd up w0))(D_f1 \<mapsto> DF, CholVpr \<mapsto> CV),
                trace := trace (after_cd_svd up w0)
                   @ [EvRead D_f1 (f1file (hf_sys_data up)),
                      EvRead CholVpr (v2file (hf_sys_data up)), EvBarrier]\<rparr>)"
    by (rule checkpoint_restore_succeeds) (use assms in simp_all)
  show ?thesis
    unfolding fci_driver_unfold using br
    apply (simp add: c)
    apply (rule reconstruct_and_export_succeeds [where AO = AO and rest = rest and H = H])
    using assms by (simp_all add: fs_exists_def can_open_out_def)
qed

lemma fci_driver_persist_succeeds:
  fixes up :: "('a::{zero,plus,times}) upstream"
  assumes br: "\<not> ccsd_restart (hf_sys_data up) w0"
    and wr: "writet (ccsd_options (options_map (hf_sys_data up)))"
    and d: "fs_exists w0 (files_dir (hf_sys_data up)) \<or> files_dir (hf_sys_data up) \<notin> unwritable w0"
    and o1: "can_open_out w0 (f1file (hf_sys_data up))"
    and o2: "can_open_out w0 (v2file (hf_sys_data up))"
    and l: "dims (cd_lcao (cd_of up w0)) = AO # rest"
    and h: "files w0 (hcorefile (hf_sys_data up)) = Some (TensorFile H)" "dims H = [AO, AO]"
    and fd: "fs_exists w0 (fci_files_dir (hf_sys_data up))
         \<or> fci_files_dir (hf_sys_data up) \<notin> unwritable w0"
    and fo: "can_open_out w0 (fcid_file (hf_sys_data up))"
  shows "succeeded (fci_driver up w0)"
proof -
  let ?sys = "hf_sys_data up"
  let ?c = "checkpoint False ?sys (pg_rank up)
          (D_f1, dims (cd_d_f1 (cd_of up w0))) (CholVpr, dims (cd_cholVpr (cd_of up w0)))
          (cd_chol_count (cd_of up w0)) (after_cd_svd up w0)"
  have "succeeded ?c"
    by (rule checkpoint_persist_succeeds [OF wr after_cd_svd_sel(4) after_cd_svd_sel(5)])
       (use d o1 o2 in simp_all)
  from succeeded_Done [OF this] obtain wc where c: "?c = Done () wc" by simp
  note p = checkpoint_persist_Done [OF c wr after_cd_svd_sel(4) after_cd_svd_sel(5)]
  have other: "files wc q = files w0 q"
    if "q \<notin> {files_dir ?sys, f1file ?sys, v2file ?sys, cholfile ?sys}" for q
    using p(5) [OF that] by simp
  have "succeeded (reconstruct_and_export ?sys (mo_space up) (cd_CI (cd_of up w0))
              (CholVpr, dims (cd_cholVpr (cd_of up w0))) (D_f1, dims (cd_d_f1 (cd_of up w0)))
              (Lcao, dims (cd_lcao (cd_of up w0))) wc)"
    apply (rule reconstruct_and_export_succeeds [where AO = AO and rest = rest and H = H])
    using l h fd fo p(6,7)
    by (simp_all add: other paths_distinct fs_exists_def can_open_out_def)
  then show ?thesis
    unfolding fci_driver_unfold using br by (simp add: c)
qed

lemma fci_driver_ephemeral_succeeds:
  fixes up :: "('a::{zero,plus,times}) upstream"
  assumes br: "\<not> ccsd_restart (hf_sys_data up) w0"
    and wr: "\<not> writet (ccsd_options (options_map (hf_sys_data up)))"
    and l: "dims (cd_lcao (cd_of up w0)) = AO # rest"
    and h: "files w0 (hcorefile (hf_sys_data up)) = Some (TensorFile H)" "dims H = [AO, AO]"
    and fd: "fs_exists w0 (fci_files_dir (hf_sys_data up))
         \<or> fci_files_dir (hf_sys_data up) \<notin> unwritable w0"
    and fo: "can_open_out w0 (fcid_file (hf_sys_data up))"
  shows "succeeded (fci_driver up w0)"
  unfolding fci_driver_unfold using br wr
  apply (simp add: checkpoint_ephemeral)
  apply (rule reconstruct_and_export_succeeds [where AO = AO and rest = rest and H = H])
  using l h fd fo by simp_all

lemma fci_driver_ephemeral_frame:
  fixes up :: "('a::{zero,plus,times}) upstream"
  assumes br: "\<not> ccsd_restart (hf_sys_data up) w0"
    and wr: "\<not> writet (ccsd_options (options_map (hf_sys_data up)))"
  shows "\<exists>evs. trace (final (fci_driver up w0)) = trace w0 @ evs
           \<and> (\<forall>ev\<in>set evs. event_path ev
                 \<in> {None, Some (fci_files_dir (hf_sys_data up)), Some (hcorefile (hf_sys_data up)),
                    Some (fcid_file (hf_sys_data up))})"
    and "p \<noteq> fci_files_dir (hf_sys_data up) \<Longrightarrow> p \<noteq> fcid_file (hf_sys_data up)
         \<Longrightarrow> files (final (fci_driver up w0)) p = files w0 p"
  using reconstruct_and_export_frame [where sys = "hf_sys_data up" and N = "mo_space up"
      and CI = "cd_CI (cd_of up w0)" and dc = "dims (cd_cholVpr (cd_of up w0))"
      and dd = "dims (cd_d_f1 (cd_of up w0))" and dl = "dims (cd_lcao (cd_of up w0))"
      and w = "after_cd_svd up w0"] br wr
  by (simp_all add: fci_driver_unfold checkpoint_ephemeral)

lemma fci_driver_reads_f1_iff:
  fixes up :: "('a::{zero,plus,times}) upstream"
  shows "EvRead D_f1 (f1file (hf_sys_data up)) \<in> set (new_events w0 (fci_driver up w0))
         \<longleftrightarrow> ccsd_restart (hf_sys_data up) w0"
proof -
  let ?sys = "hf_sys_data up"
  let ?c = "checkpoint (ccsd_restart ?sys w0) ?sys (pg_rank up)
          (D_f1, dims (cd_d_f1 (cd_of up w0))) (CholVpr, dims (cd_cholVpr (cd_of up w0)))
          (cd_chol_count (cd_of up w0)) (after_cd_svd up w0)"
  let ?e = "reconstruct_and_export ?sys (mo_space up) (cd_CI (cd_of up w0))
              (CholVpr, dims (cd_cholVpr (cd_of up w0))) (D_f1, dims (cd_d_f1 (cd_of up w0)))
              (Lcao, dims (cd_lcao (cd_of up w0)))"
  have tail: "\<exists>evs. trace (final (?e w)) = trace w @ evs
           \<and> (\<forall>ev\<in>set evs. ev \<noteq> EvRead D_f1 (f1file ?sys))" for w
  proof -
    from reconstruct_and_export_frame(1) obtain evs where
      t: "trace (final (?e w)) = trace w @ evs"
      and a: "\<forall>ev\<in>set evs. event_path ev
                 \<in> {None, Some (fci_files_dir ?sys), Some (hcorefile ?sys), Some (fcid_file ?sys)}"
      by blast
    have "ev \<noteq> EvRead D_f1 (f1file ?sys)" if "ev \<in> set evs" for ev
      using a that by (auto simp: paths_distinct)
    with t show ?thesis by blast
  qed
  have whole: "\<exists>evs2. trace (final (fci_driver up w0)) = trace (final ?c) @ evs2
           \<and> (\<forall>ev\<in>set evs2. ev \<noteq> EvRead D_f1 (f1file ?sys))"
  proof (cases ?c)
    case (Done u wc)
    with tail [of wc] show ?thesis
      by (simp add: fci_driver_unfold)
  next
    case (Failed e wc)
    then show ?thesis
      by (simp add: fci_driver_unfold)
  qed
  then obtain evs2 where
    w: "trace (final (fci_driver up w0)) = trace (final ?c) @ evs2"
    and n2: "\<forall>ev\<in>set evs2. ev \<noteq> EvRead D_f1 (f1file ?sys)"
    by blast
  show ?thesis
  proof (cases "ccsd_restart ?sys w0")
    case True
    with checkpoint_restore_frame [where sys = ?sys and rk = "pg_rank up"
        and dd = "dims (cd_d_f1 (cd_of up w0))" and dc = "dims (cd_cholVpr (cd_of up w0))"
        and n = "cd_chol_count (cd_of up w0)" and w = "after_cd_svd up w0"]
    obtain evs where "trace (final ?c) = trace w0 @ EvRead D_f1 (f1file ?sys) # evs"
      by auto
    with w True show ?thesis
      by (simp add: new_events_def)
  next
    case False
    with checkpoint_frame [where sys = ?sys and rk = "pg_rank up"
        and dd = "dims (cd_d_f1 (cd_of up w0))" and dc = "dims (cd_cholVpr (cd_of up w0))"
        and n = "cd_chol_count (cd_of up w0)" and w = "after_cd_svd up w0"]
    obtain evs where "trace (final ?c) = trace w0 @ evs"
      and "\<forall>ev\<in>set evs. ev \<noteq> EvRead D_f1 (f1file ?sys)"
      by auto
    with w n2 False show ?thesis
      by (auto simp: new_events_def)
  qed
qed

lemma fci_driver_export:
  fixes up :: "('a::{zero,plus,times}) upstream"
  assumes ok: "succeeded (fci_driver up w0)"
  shows "\<exists>pre CV AO rest H.
     dims (cd_lcao (cd_of up w0)) = AO # rest
     \<and> files w0 (hcorefile (hf_sys_data up)) = Some (TensorFile H) \<and> dims H = [AO, AO]
     \<and> (if ccsd_restart (hf_sys_data up) w0
         then files w0 (v2file (hf_sys_data up)) = Some (TensorFile CV)
         else CV = cd_cholVpr (cd_of up w0))
     \<and> new_events w0 (fci_driver up w0) =
          pre @ export_events (hf_sys_data up) (fs_exists w0 (fci_files_dir (hf_sys_data up)))
     \<and> (\<forall>ev\<in>set pre. event_path ev
            \<in> {None, Some (files_dir (hf_sys_data up)), Some (f1file (hf_sys_data up)),
               Some (v2file (hf_sys_data up)), Some (cholfile (hf_sys_data up))})
     \<and> (\<forall>ev\<in>set pre. \<forall>a b c. ev \<noteq> EvMult a b c)
     \<and> files (final (fci_driver up w0)) (fcid_file (hf_sys_data up)) =
          Some (FcidumpFile (rotated (mo_space up) AO (cd_lcao (cd_of up w0)) H)
                  (reconstructed (mo_space up) (cd_CI (cd_of up w0)) CV)
                  (symvec (hf_sys_data up)))"
proof (cases "ccsd_restart (hf_sys_data up) w0")
  case br: True
  from fci_driver_restore_Done [OF ok br] obtain D1 CV AO rest H where
    "files w0 (v2file (hf_sys_data up)) = Some (TensorFile CV)"
    "dims (cd_lcao (cd_of up w0)) = AO # rest"
    "files w0 (hcorefile (hf_sys_data up)) = Some (TensorFile H)" "dims H = [AO, AO]"
    "trace (final (fci_driver up w0)) = trace w0
          @ [EvRead D_f1 (f1file (hf_sys_data up)), EvRead CholVpr (v2file (hf_sys_data up)),
             EvBarrier]
          @ export_events (hf_sys_data up) (fs_exists w0 (fci_files_dir (hf_sys_data up)))"
    "files (final (fci_driver up w0)) =
          (if fs_exists w0 (fci_files_dir (hf_sys_data up)) then files w0
           else (files w0)(fci_files_dir (hf_sys_data up) \<mapsto> Dir))
          (fcid_file (hf_sys_data up) \<mapsto>
             FcidumpFile (rotated (mo_space up) AO (cd_lcao (cd_of up w0)) H)
               (reconstructed (mo_space up) (cd_CI (cd_of up w0)) CV)
               (symvec (hf_sys_data up)))"
    by blast
  note f = this
    show ?thesis
    apply (rule exI [of _ "[EvRead D_f1 (f1file (hf_sys_data up)),
                             EvRead CholVpr (v2file (hf_sys_data up)), EvBarrier]"],
           rule exI [of _ CV], rule exI [of _ AO], rule exI [of _ rest], rule exI [of _ H])
    using f br by (simp add: new_events_def)
next
  case nbr: False
  show ?thesis
  proof (cases "writet (ccsd_options (options_map (hf_sys_data up)))")
    case wr: True
    from fci_driver_persist_Done [OF ok nbr wr] obtain AO rest H where
      "dims (cd_lcao (cd_of up w0)) = AO # rest"
      "files w0 (hcorefile (hf_sys_data up)) = Some (TensorFile H)" "dims H = [AO, AO]"
      "trace (final (fci_driver up w0)) = trace w0
          @ persist_events (hf_sys_data up) (pg_rank up) (cd_chol_count (cd_of up w0)) w0
          @ export_events (hf_sys_data up) (fs_exists w0 (fci_files_dir (hf_sys_data up)))"
      "files (final (fci_driver up w0)) (fcid_file (hf_sys_data up)) =
          Some (FcidumpFile (rotated (mo_space up) AO (cd_lcao (cd_of up w0)) H)
                  (reconstructed (mo_space up) (cd_CI (cd_of up w0)) (cd_cholVpr (cd_of up w0)))
                  (symvec (hf_sys_data up)))"
      by blast
    note f = this
    show ?thesis
      apply (rule exI [of _ "persist_events (hf_sys_data up) (pg_rank up)
                                (cd_chol_count (cd_of up w0)) w0"],
             rule exI [of _ "cd_cholVpr (cd_of up w0)"], rule exI [of _ AO],
             rule exI [of _ rest], rule exI [of _ H])
      using f nbr by (auto simp: new_events_def persist_events_def)
  next
    case nwr: False
    from fci_driver_ephemeral_Done [OF ok nbr nwr] obtain AO rest H where
      "dims (cd_lcao (cd_of up w0)) = AO # rest"
      "files w0 (hcorefile (hf_sys_data up)) = Some (TensorFile H)" "dims H = [AO, AO]"
      "trace (final (fci_driver up w0)) = trace w0
          @ export_events (hf_sys_data up) (fs_exists w0 (fci_files_dir (hf_sys_data up)))"
      "files (final (fci_driver up w0)) =
          (if fs_exists w0 (fci_files_dir (hf_sys_data up)) then files w0
           else (files w0)(fci_files_dir (hf_sys_data up) \<mapsto> Dir))
          (fcid_file (hf_sys_data up) \<mapsto>
             FcidumpFile (rotated (mo_space up) AO (cd_lcao (cd_of up w0)) H)
               (reconstructed (mo_space up) (cd_CI (cd_of up w0)) (cd_cholVpr (cd_of up w0)))
               (symvec (hf_sys_data up)))"
      by blast
    note f = this
    show ?thesis
      apply (rule exI [of _ "[]"], rule exI [of _ "cd_cholVpr (cd_of up w0)"],
             rule exI [of _ AO], rule exI [of _ rest], rule exI [of _ H])
      using f nbr by (simp add: new_events_def)
  qed
qed

lemma checkpoint_persist_frame:
  fixes w :: "'a world" and sys rk dd dc n
  defines "r \<equiv> checkpoint False sys rk (D_f1, dd) (CholVpr, dc) n w"
  assumes "writet (ccsd_options (options_map sys))"
  shows "\<exists>evs. trace (final r) = trace w @ evs
           \<and> (EvMkdir (files_dir sys) \<in> set evs \<or> EvWrite D_f1 (f1file sys) \<in> set evs)"
  using assms(2) unfolding r_def
  by (auto simp: checkpoint_def write_count_def exec_defs paths_distinct
           split: option.splits if_splits)

lemma checkpoint_restore_events:
  fixes w :: "'a world" and sys rk dd dc n
  defines "r \<equiv> checkpoint True sys rk (D_f1, dd) (CholVpr, dc) n w"
  shows "\<exists>evs. trace (final r) = trace w @ evs
           \<and> set evs \<subseteq> {EvRead D_f1 (f1file sys), EvRead CholVpr (v2file sys), EvBarrier}"
  unfolding r_def
  by (auto simp: checkpoint_def exec_defs split: option.splits node.splits if_splits)

lemma reconstruct_and_export_barrier_first:
  fixes w :: "('a::{zero,plus,times}) world" and sys N CI dc dd dl
  defines "r \<equiv> reconstruct_and_export sys N CI (CholVpr, dc) (D_f1, dd) (Lcao, dl) w"
  shows "\<exists>evs. trace (final r) = trace w @ EvBarrier # evs
           \<and> (\<forall>ev\<in>set evs. event_path ev
                 \<in> {None, Some (fci_files_dir sys), Some (hcorefile sys), Some (fcid_file sys)})"
  unfolding r_def
  by (auto simp: reconstruct_and_export_def reconstruction_ops_def
                 generate_fcidump_def rotation_ops_def exec_defs
           split: list.splits option.splits node.splits if_splits)

lemma fci_driver_trace_split:
  fixes up :: "('a::{zero,plus,times}) upstream"
  shows "\<exists>evs2. trace (final (fci_driver up w0)) =
           trace (final (checkpoint (ccsd_restart (hf_sys_data up) w0) (hf_sys_data up) (pg_rank up)
                (D_f1, dims (cd_d_f1 (cd_of up w0))) (CholVpr, dims (cd_cholVpr (cd_of up w0)))
                (cd_chol_count (cd_of up w0)) (after_cd_svd up w0))) @ evs2
         \<and> (\<forall>ev\<in>set evs2. event_path ev
               \<in> {None, Some (fci_files_dir (hf_sys_data up)), Some (hcorefile (hf_sys_data up)),
                  Some (fcid_file (hf_sys_data up))})"
proof -
  let ?sys = "hf_sys_data up"
  let ?c = "checkpoint (ccsd_restart ?sys w0) ?sys (pg_rank up)
          (D_f1, dims (cd_d_f1 (cd_of up w0))) (CholVpr, dims (cd_cholVpr (cd_of up w0)))
          (cd_chol_count (cd_of up w0)) (after_cd_svd up w0)"
  show ?thesis
  proof (cases ?c)
    case (Done u wc)
    with reconstruct_and_export_frame(1) [where sys = ?sys and N = "mo_space up"
        and CI = "cd_CI (cd_of up w0)" and dc = "dims (cd_cholVpr (cd_of up w0))"
        and dd = "dims (cd_d_f1 (cd_of up w0))" and dl = "dims (cd_lcao (cd_of up w0))"
        and w = wc]
    show ?thesis
      by (simp add: fci_driver_unfold)
  next
    case (Failed e wc)
    then show ?thesis
      by (simp add: fci_driver_unfold)
  qed
qed

lemma fci_driver_persist_stage:
  fixes up :: "('a::{zero,plus,times}) upstream"
  assumes br: "\<not> ccsd_restart (hf_sys_data up) w0"
    and wr: "writet (ccsd_options (options_map (hf_sys_data up)))"
    and d: "fs_exists w0 (files_dir (hf_sys_data up)) \<or> files_dir (hf_sys_data up) \<notin> unwritable w0"
    and o1: "can_open_out w0 (f1file (hf_sys_data up))"
    and o2: "can_open_out w0 (v2file (hf_sys_data up))"
  shows "\<exists>rest. new_events w0 (fci_driver up w0) =
            persist_events (hf_sys_data up) (pg_rank up) (cd_chol_count (cd_of up w0)) w0
            @ EvBarrier # rest
          \<and> (\<forall>ev\<in>set rest. event_path ev
                \<in> {None, Some (fci_files_dir (hf_sys_data up)), Some (hcorefile (hf_sys_data up)),
                   Some (fcid_file (hf_sys_data up))})"
    and "files (final (fci_driver up w0)) (files_dir (hf_sys_data up)) =
          (if fs_exists w0 (files_dir (hf_sys_data up)) then files w0 (files_dir (hf_sys_data up))
           else Some Dir)"
    and "files (final (fci_driver up w0)) (f1file (hf_sys_data up))
          = Some (TensorFile (cd_d_f1 (cd_of up w0)))"
    and "files (final (fci_driver up w0)) (v2file (hf_sys_data up))
          = Some (TensorFile (cd_cholVpr (cd_of up w0)))"
    and "files (final (fci_driver up w0)) (cholfile (hf_sys_data up)) =
          (if pg_rank up = 0 \<and> can_open_out w0 (cholfile (hf_sys_data up))
           then Some (TextFile (dec (cd_chol_count (cd_of up w0)) @ [CHR 0x0A]))
           else files w0 (cholfile (hf_sys_data up)))"
proof -
  let ?sys = "hf_sys_data up"
  let ?c = "checkpoint False ?sys (pg_rank up)
          (D_f1, dims (cd_d_f1 (cd_of up w0))) (CholVpr, dims (cd_cholVpr (cd_of up w0)))
          (cd_chol_count (cd_of up w0)) (after_cd_svd up w0)"
  let ?e = "reconstruct_and_export ?sys (mo_space up) (cd_CI (cd_of up w0))
              (CholVpr, dims (cd_cholVpr (cd_of up w0))) (D_f1, dims (cd_d_f1 (cd_of up w0)))
              (Lcao, dims (cd_lcao (cd_of up w0)))"
  have "succeeded ?c"
    by (rule checkpoint_persist_succeeds [OF wr after_cd_svd_sel(4) after_cd_svd_sel(5)])
       (use d o1 o2 in simp_all)
  from succeeded_Done [OF this] obtain wc where c: "?c = Done () wc" by simp
  note p = checkpoint_persist_Done [OF c wr after_cd_svd_sel(4) after_cd_svd_sel(5)]
  have run: "fci_driver up w0 = ?e wc"
    using br by (simp add: fci_driver_unfold c)
  from reconstruct_and_export_barrier_first [where sys = ?sys and N = "mo_space up"
        and CI = "cd_CI (cd_of up w0)" and dc = "dims (cd_cholVpr (cd_of up w0))"
        and dd = "dims (cd_d_f1 (cd_of up w0))" and dl = "dims (cd_lcao (cd_of up w0))"
        and w = wc]
  obtain rest where t: "trace (final (?e wc)) = trace wc @ EvBarrier # rest"
    and a: "\<forall>ev\<in>set rest. event_path ev
                 \<in> {None, Some (fci_files_dir ?sys), Some (hcorefile ?sys), Some (fcid_file ?sys)}"
    by blast
  have "new_events w0 (fci_driver up w0) =
            persist_events ?sys (pg_rank up) (cd_chol_count (cd_of up w0)) w0 @ EvBarrier # rest"
    by (rule new_events_append) (simp add: run t p(8))
  with a show "\<exists>rest. new_events w0 (fci_driver up w0) =
            persist_events ?sys (pg_rank up) (cd_chol_count (cd_of up w0)) w0 @ EvBarrier # rest
          \<and> (\<forall>ev\<in>set rest. event_path ev
                \<in> {None, Some (fci_files_dir ?sys), Some (hcorefile ?sys), Some (fcid_file ?sys)})"
    by blast
  have fr: "files (final (fci_driver up w0)) q = files wc q"
    if "q \<noteq> fci_files_dir ?sys" "q \<noteq> fcid_file ?sys" for q
    unfolding run using that by (rule reconstruct_and_export_frame(2))
  show "files (final (fci_driver up w0)) (files_dir ?sys) =
          (if fs_exists w0 (files_dir ?sys) then files w0 (files_dir ?sys) else Some Dir)"
    using p(4) by (simp add: fr paths_distinct)
  show "files (final (fci_driver up w0)) (f1file ?sys) = Some (TensorFile (cd_d_f1 (cd_of up w0)))"
    using p(1) by (simp add: fr paths_distinct)
  show "files (final (fci_driver up w0)) (v2file ?sys)
          = Some (TensorFile (cd_cholVpr (cd_of up w0)))"
    using p(2) by (simp add: fr paths_distinct)
  show "files (final (fci_driver up w0)) (cholfile ?sys) =
          (if pg_rank up = 0 \<and> can_open_out w0 (cholfile ?sys)
           then Some (TextFile (dec (cd_chol_count (cd_of up w0)) @ [CHR 0x0A]))
           else files w0 (cholfile ?sys))"
    using p(3) by (simp add: fr paths_distinct)
qed

lemma fci_driver_persist_iff:
  fixes up :: "('a::{zero,plus,times}) upstream"
  shows "(EvMkdir (files_dir (hf_sys_data up)) \<in> set (new_events w0 (fci_driver up w0))
          \<or> EvWrite D_f1 (f1file (hf_sys_data up)) \<in> set (new_events w0 (fci_driver up w0)))
         \<longleftrightarrow> writet (ccsd_options (options_map (hf_sys_data up)))
             \<and> \<not> ccsd_restart (hf_sys_data up) w0"
proof -
  let ?sys = "hf_sys_data up"
  let ?c = "checkpoint (ccsd_restart ?sys w0) ?sys (pg_rank up)
          (D_f1, dims (cd_d_f1 (cd_of up w0))) (CholVpr, dims (cd_cholVpr (cd_of up w0)))
          (cd_chol_count (cd_of up w0)) (after_cd_svd up w0)"
  from fci_driver_trace_split [of up w0] obtain evs2 where
    w: "trace (final (fci_driver up w0)) = trace (final ?c) @ evs2"
    and a: "\<forall>ev\<in>set evs2. event_path ev
               \<in> {None, Some (fci_files_dir ?sys), Some (hcorefile ?sys), Some (fcid_file ?sys)}"
    by blast
  have n2: "EvMkdir (files_dir ?sys) \<notin> set evs2" "EvWrite D_f1 (f1file ?sys) \<notin> set evs2"
    using a by (auto simp: paths_distinct)
  show ?thesis
  proof (cases "ccsd_restart ?sys w0")
    case True
    with checkpoint_restore_events [where sys = ?sys and rk = "pg_rank up"
        and dd = "dims (cd_d_f1 (cd_of up w0))" and dc = "dims (cd_cholVpr (cd_of up w0))"
        and n = "cd_chol_count (cd_of up w0)" and w = "after_cd_svd up w0"]
    obtain evs where "trace (final ?c) = trace w0 @ evs"
      and "set evs \<subseteq> {EvRead D_f1 (f1file ?sys), EvRead CholVpr (v2file ?sys), EvBarrier}"
      by auto
    with w n2 True show ?thesis
      by (auto simp: new_events_def)
  next
    case nbr: False
    show ?thesis
    proof (cases "writet (ccsd_options (options_map ?sys))")
      case True
      with nbr checkpoint_persist_frame [where sys = ?sys and rk = "pg_rank up"
        and dd = "dims (cd_d_f1 (cd_of up w0))" and dc = "dims (cd_cholVpr (cd_of up w0))"
        and n = "cd_chol_count (cd_of up w0)" and w = "after_cd_svd up w0"]
      obtain evs where "trace (final ?c) = trace w0 @ evs"
        and "EvMkdir (files_dir ?sys) \<in> set evs \<or> EvWrite D_f1 (f1file ?sys) \<in> set evs"
        by auto
      with w True nbr show ?thesis
        by (auto simp: new_events_def)
    next
      case False
      with nbr have "?c = Done () (after_cd_svd up w0)"
        by (simp add: checkpoint_ephemeral)
      with w n2 False show ?thesis
        by (auto simp: new_events_def)
    qed
  qed
qed

subsection \<open>The small system\<close>

lemma sys_h2_sel [simp]:
  "readt (ccsd_options (options_map sys_h2)) = False"
  "writet (ccsd_options (options_map sys_h2)) = False"
  "nbf_orig sys_h2 = 2" "is_unrestricted sys_h2 = False"
  by (simp_all add: sys_h2_def)

lemma up_h2_sel [simp]:
  "pg_rank (up_h2 rk sys) = rk" "hf_sys_data (up_h2 rk sys) = sys" "mo_space (up_h2 rk sys) = 2"
  "cd_of (up_h2 rk sys) w = cd_h2"
  by (simp_all add: up_h2_def cd_of_def)

lemma cd_h2_sel [simp]:
  "dims (cd_lcao cd_h2) = [2, 2]" "dims (cd_d_f1 cd_h2) = [2, 2]"
  "dims (cd_cholVpr cd_h2) = [2, 2, 3]" "cd_CI cd_h2 = 3" "cd_chol_count cd_h2 = 3"
  by (simp_all add: cd_h2_def)

lemma w_h2_sel [simp]:
  "files w_h2 (hcorefile sys_h2) = Some (TensorFile hcore_h2)"
  "files w_h2 (f1file sys_h2) = None" "files w_h2 (v2file sys_h2) = None"
  "files w_h2 (cholfile sys_h2) = None" "files w_h2 (files_dir sys_h2) = None"
  "files w_h2 (fci_files_dir sys_h2) = None" "files w_h2 (fcid_file sys_h2) = None"
  "unwritable w_h2 = {}" "trace w_h2 = []" "dims hcore_h2 = [2, 2]"
  by (simp_all add: w_h2_def hcore_h2_def paths_distinct)

lemma ephemeral_h2_succeeds: "succeeded (fci_driver (up_h2 0 sys_h2) w_h2)"
  by (rule fci_driver_ephemeral_succeeds [where AO = 2 and rest = "[2]" and H = hcore_h2])
     (simp_all add: ccsd_restart_def fs_exists_def can_open_out_def)

lemma persist_h2_succeeds: "succeeded (fci_driver (up_h2 rk (with_flags False True sys_h2)) w_h2)"
  by (rule fci_driver_persist_succeeds [where AO = 2 and rest = "[2]" and H = hcore_h2])
     (simp_all add: ccsd_restart_def fs_exists_def can_open_out_def)

lemma w_ckpt_h2_sel [simp]:
  "files w_ckpt_h2 (hcorefile sys_h2) = Some (TensorFile hcore_h2)"
  "files w_ckpt_h2 (f1file sys_h2) = Some (TensorFile (cd_d_f1 cd_h2))"
  "files w_ckpt_h2 (v2file sys_h2) = Some (TensorFile cholv2_h2)"
  "files w_ckpt_h2 (fci_files_dir sys_h2) = None" "files w_ckpt_h2 (fcid_file sys_h2) = None"
  "unwritable w_ckpt_h2 = {}" "trace w_ckpt_h2 = []" "dims cholv2_h2 = [2, 2, 3]"
  by (simp_all add: w_ckpt_h2_def cholv2_h2_def paths_distinct)

lemma restore_h2_succeeds: "succeeded (fci_driver (up_h2 rk sys_h2) w_ckpt_h2)"
  by (rule fci_driver_restore_succeeds [where AO = 2 and rest = "[2]" and H = hcore_h2
        and DF = "cd_d_f1 cd_h2" and CV = cholv2_h2])
     (simp_all add: ccsd_restart_def fs_exists_def can_open_out_def)

subsection \<open>The count file and the checkpoint directory\<close>

lemma dec_digits: "set (dec n) \<subseteq> set ''0123456789''"
proof (induction n rule: dec.induct)
  case (1 n)
  have d: "''0123456789'' ! k \<in> set ''0123456789''" if "k < 10" for k
    using that by (intro nth_mem) simp
  show ?case
  proof (cases "n < 10")
    case True
    then show ?thesis
      using d [of n] by (subst dec.simps) simp
  next
    case False
    have "n mod 10 < 10" by simp
    with False 1 d [of "n mod 10"] show ?thesis
      by (subst dec.simps) simp
  qed
qed

lemma dec_no_newline: "CHR 0x0A \<notin> set (dec n)"
  using dec_digits [of n] by auto

lemma dec_3: "dec 3 = ''3''"
  by (subst dec.simps) simp

lemma ensure_directory_idempotent:
  "ensure_directory p w = Done () w1 \<Longrightarrow> ensure_directory p w1 = Done () w1"
  by (auto simp: ensure_directory_def create_directories_def fs_exists_def log_def Let_def
           split: if_splits)

lemma ensure_directory_existing: "fs_exists w p \<Longrightarrow> ensure_directory p w = Done () w"
  by (simp add: ensure_directory_def)

lemma digit_value_nth: "k < 10 \<Longrightarrow> digit_value (''0123456789'' ! k) = k"
proof -
  assume "k < 10"
  then have "k \<in> {0, 1, 2, 3, 4, 5, 6, 7, 8, 9}" by auto
  then show ?thesis by (auto simp: digit_value_def)
qed

lemma parse_nat_snoc: "parse_nat (s @ [c]) = 10 * parse_nat s + digit_value c"
  by (simp add: parse_nat_def)

lemma parse_nat_dec: "parse_nat (dec n) = n"
proof (induction n rule: dec.induct)
  case (1 n)
  show ?case
  proof (cases "n < 10")
    case True
    then show ?thesis
      by (subst dec.simps) (simp add: parse_nat_def digit_value_nth)
  next
    case False
    with 1 have "parse_nat (dec (n div 10)) = n div 10" by simp
    with False show ?thesis
      by (subst dec.simps) (simp add: parse_nat_snoc digit_value_nth)
  qed
qed

lemma read_count_dec: "read_count (dec n @ [CHR 0x0A]) = n"
proof -
  let ?P = "\<lambda>c. c \<in> set ''0123456789''"
  have a: "\<And>c. c \<in> set (dec n) \<Longrightarrow> ?P c"
    using dec_digits [of n] by blast
  have "takeWhile ?P (dec n @ [CHR 0x0A]) = dec n @ takeWhile ?P [CHR 0x0A]"
    using a by (rule takeWhile_append2)
  also have "takeWhile ?P [CHR 0x0A] = []"
    by simp
  finally show ?thesis
    by (simp add: read_count_def parse_nat_dec)
qed

subsection \<open>The small system, continued\<close>

lemma w_ro_h2_sel [simp]:
  "files w_ro_h2 = files w_h2" "unwritable w_ro_h2 = {cholfile sys_h2}" "trace w_ro_h2 = []"
  by (simp_all add: w_ro_h2_def)

lemma persist_ro_h2_succeeds:
  "succeeded (fci_driver (up_h2 rk (with_flags False True sys_h2)) w_ro_h2)"
  by (rule fci_driver_persist_succeeds [where AO = 2 and rest = "[2]" and H = hcore_h2])
     (simp_all add: ccsd_restart_def fs_exists_def can_open_out_def paths_distinct)

subsection \<open>Runs with other flags\<close>

lemma with_run_flags_sel [simp]:
  "hf_sys_data (with_run_flags rd wr up) = with_flags rd wr (hf_sys_data up)"
  "pg_rank (with_run_flags rd wr up) = pg_rank up"
  "mo_space (with_run_flags rd wr up) = mo_space up"
  "cd_svd_driver (with_run_flags rd wr up) = cd_svd_driver up"
  by (simp_all add: with_run_flags_def)

lemma ccsd_restart_with_flags [simp]:
  "ccsd_restart (with_flags rd wr sys) w
     \<longleftrightarrow> rd \<or> (fs_exists w (f1file sys) \<and> fs_exists w (v2file sys))"
  by (simp add: ccsd_restart_def)

lemma w_empty_h2_sel [simp]:
  "files w_empty_h2 p = None" "unwritable w_empty_h2 = {}" "trace w_empty_h2 = []"
  by (simp_all add: w_empty_h2_def)

lemma w_dir_h2_sel [simp]:
  "files w_dir_h2 (files_dir sys_h2) = Some Dir" "files w_dir_h2 (f1file sys_h2) = None"
  "files w_dir_h2 (v2file sys_h2) = None" "files w_dir_h2 (cholfile sys_h2) = None"
  "files w_dir_h2 (hcorefile sys_h2) = None"
  "unwritable w_dir_h2 = {}" "trace w_dir_h2 = []"
  by (simp_all add: w_dir_h2_def w_empty_h2_def paths_distinct)

lemma cd_of_with_run_flags:
  "cd_of (with_run_flags rd wr up) w =
     cd_svd_driver up (rd \<or> (fs_exists w (f1file (hf_sys_data up))
                             \<and> fs_exists w (v2file (hf_sys_data up))))
       (cholfile (hf_sys_data up)) (files w)"
  by (simp add: cd_of_def)

lemma up_rs_h2_sel [simp]:
  "pg_rank up_rs_h2 = 0" "hf_sys_data up_rs_h2 = sys_h2" "mo_space up_rs_h2 = 2"
  "cd_svd_driver up_rs_h2 False f fs = cd_h2"
  "cd_svd_driver up_rs_h2 True f fs =
     (case fs f of Some (TextFile t) \<Rightarrow> cd_restart_h2 (read_count t) | _ \<Rightarrow> cd_restart_h2 0)"
  by (simp_all add: up_rs_h2_def)

lemma cd_restart_h2_sel [simp]:
  "cd_lcao (cd_restart_h2 n) = cd_lcao cd_h2" "cd_CI (cd_restart_h2 n) = n"
  "dims (cd_cholVpr (cd_restart_h2 n)) = [2, 2, n]" "dims (cd_d_f1 (cd_restart_h2 n)) = [2, 2]"
  by (simp_all add: cd_restart_h2_def)

lemma up_rs_h2_contract: "cd_svd_contract up_rs_h2"
  by (simp add: cd_svd_contract_def read_count_dec)

lemma cd_of_up_rs_h2 [simp]: "cd_of (with_run_flags False wr up_rs_h2) w_h2 = cd_h2"
  by (simp add: cd_of_with_run_flags fs_exists_def)

lemma plain_rs_h2_succeeds: "succeeded (fci_driver (with_run_flags False False up_rs_h2) w_h2)"
  by (rule fci_driver_ephemeral_succeeds [where AO = 2 and rest = "[2]" and H = hcore_h2])
     (simp_all add: fs_exists_def can_open_out_def)

lemma persist_rs_h2_succeeds: "succeeded (fci_driver (with_run_flags False True up_rs_h2) w_h2)"
  by (rule fci_driver_persist_succeeds [where AO = 2 and rest = "[2]" and H = hcore_h2])
     (simp_all add: fs_exists_def can_open_out_def)

lemma pg_rank_update_sel [simp]:
  "hf_sys_data (up\<lparr>pg_rank := r\<rparr>) = hf_sys_data up"
  "mo_space (up\<lparr>pg_rank := r\<rparr>) = mo_space up"
  "cd_svd_driver (up\<lparr>pg_rank := r\<rparr>) = cd_svd_driver up"
  by simp_all

subsection \<open>Symmetry labels\<close>

lemma symvec_replicate:
  "symvec sys = replicate (if is_unrestricted sys then 2 * nbf_orig sys else nbf_orig sys) 1"
  by (simp add: symvec_def resize_def fill_def Let_def map_replicate_const
        flip: replicate_add)

lemma symvec_with_flags [simp]: "symvec (with_flags rd wr sys) = symvec sys"
  by (simp add: symvec_replicate)

text \<open>
  Claim C9. The symmetry-label vector \<open>generate_fcidump\<close> hands to the exporter has as many
  entries as there are orbitals, \<open>nbf_orig\<close>, twice as many for a spin-unrestricted system, and
  every entry is 1.
\<close>

theorem symvec_supplied_to_exporter:
  fixes w :: "('a::{zero,plus,times}) world"
  assumes "succeeded (generate_fcidump sys MSO (Lcao, dl) (D_f1, dd) (Full_v2, dv) w)"
  shows "\<exists>h v sv.
     files (final (generate_fcidump sys MSO (Lcao, dl) (D_f1, dd) (Full_v2, dv) w)) (fcid_file sys)
       = Some (FcidumpFile h v sv)
     \<and> length sv = (if is_unrestricted sys then 2 * nbf_orig sys else nbf_orig sys)
     \<and> (\<forall>x\<in>set sv. x = 1)"
proof -
  from succeeded_DoneE [OF assms] obtain r where
    "generate_fcidump sys MSO (Lcao, dl) (D_f1, dd) (Full_v2, dv) w =
       Done r (final (generate_fcidump sys MSO (Lcao, dl) (D_f1, dd) (Full_v2, dv) w))" ..
  from generate_fcidump_Done [OF this] obtain AO L H V where
    "files (final (generate_fcidump sys MSO (Lcao, dl) (D_f1, dd) (Full_v2, dv) w)) (fcid_file sys)
       = Some (FcidumpFile (rotated MSO AO L H) V (symvec sys))"
    by auto
  then show ?thesis
    by (simp add: symvec_replicate)
qed

lemma wg_h2_succeeds:
  "succeeded (generate_fcidump sys_h2 2 (Lcao, [2, 2]) (D_f1, [2, 2]) (Full_v2, [2, 2, 2, 2]) wg_h2)"
  by (rule generate_fcidump_succeeds [where AO = 2 and rest = "[2]" and H = hcore_h2])
     (simp_all add: wg_h2_def w_h2_def hcore_h2_def can_open_out_def paths_distinct)

theorem symvec_supplied_to_exporter_witness:
  "succeeded (generate_fcidump sys_h2 2 (Lcao, [2, 2]) (D_f1, [2, 2]) (Full_v2, [2, 2, 2, 2]) wg_h2)
   \<and> (\<exists>h v.
        files (final (generate_fcidump sys_h2 2 (Lcao, [2, 2]) (D_f1, [2, 2])
                        (Full_v2, [2, 2, 2, 2]) wg_h2)) (fcid_file sys_h2)
          = Some (FcidumpFile h v [1, 1]))"
proof -
  from symvec_supplied_to_exporter [OF wg_h2_succeeds] obtain h v sv where
    f: "files (final (generate_fcidump sys_h2 2 (Lcao, [2, 2]) (D_f1, [2, 2])
                        (Full_v2, [2, 2, 2, 2]) wg_h2)) (fcid_file sys_h2)
          = Some (FcidumpFile h v sv)"
    and l: "length sv = (if is_unrestricted sys_h2 then 2 * nbf_orig sys_h2 else nbf_orig sys_h2)"
    and a: "\<forall>x\<in>set sv. x = 1"
    by blast
  from l have "length sv = 2" by (simp add: sys_h2_def)
  then obtain x y where "sv = [x, y]"
    by (cases sv; cases "tl sv") auto
  with a have "sv = [1, 1]" by simp
  with f wg_h2_succeeds show ?thesis by blast
qed

subsection \<open>Basis rotation\<close>

text \<open>
  Claim C2. \<open>generate_fcidump\<close> rotates the one-electron operator in two contractions,
  \<open>Tmp(z1,nu) = \<Sum>mu. LCAO(mu,z1) * H(mu,nu)\<close> and then
  \<open>H_mo(z1,z2) = \<Sum>nu. Tmp(z1,nu) * LCAO(nu,z2)\<close>, so that the one-electron block it exports
  is the matrix product of the transpose of LCAO, H and LCAO (however the product is
  bracketed), H being the contents of the atomic-basis operator file. The scratch tensor and
  the atomic-basis operator are deallocated right after the second contraction, before the
  export, and are not allocated when the function returns.
\<close>

theorem basis_rotation:
  fixes w :: "('a::semiring_0) world"
  assumes ok: "succeeded (generate_fcidump sys MSO (Lcao, dl) (D_f1, dd) (Full_v2, dv) w)"
  shows "\<exists>AO rest L H tmp h v sv.
     dl = AO # rest \<and> store w Lcao = Some L
     \<and> files w (hcorefile sys) = Some (TensorFile H)
     \<and> files (final (generate_fcidump sys MSO (Lcao, dl) (D_f1, dd) (Full_v2, dv) w))
          (fcid_file sys) = Some (FcidumpFile h v sv)
     \<and> (\<forall>z1 nu. tmp z1 nu =
            accumulate (map (\<lambda>mu. elems L [mu, z1] * elems H [mu, nu]) [0..<AO]))
     \<and> (\<forall>z1 z2. elems h [z1, z2] =
            accumulate (map (\<lambda>nu. tmp z1 nu * elems L [nu, z2]) [0..<AO]))
     \<and> (\<forall>z1 z2. elems h [z1, z2] =
            mat_mult AO (mat_mult AO (mat_transpose (mat_of L)) (mat_of H)) (mat_of L) z1 z2)
     \<and> (\<forall>z1 z2. elems h [z1, z2] =
            mat_mult AO (mat_transpose (mat_of L)) (mat_mult AO (mat_of H) (mat_of L)) z1 z2)
     \<and> new_events w (generate_fcidump sys MSO (Lcao, dl) (D_f1, dd) (Full_v2, dv) w) =
          [EvAllocate Hcore, EvAllocate Hcore_mo]
          @ (if fs_exists w (fci_files_dir sys) then [] else [EvMkdir (fci_files_dir sys)])
          @ [EvRead Hcore (hcorefile sys), EvAllocate Tmp, EvMult Tmp Lcao Hcore,
             EvMult Hcore_mo Tmp Lcao, EvDeallocate Tmp, EvDeallocate Hcore,
             EvExport (fcid_file sys), EvDeallocate Hcore_mo]
     \<and> store (final (generate_fcidump sys MSO (Lcao, dl) (D_f1, dd) (Full_v2, dv) w)) Tmp = None
     \<and> store (final (generate_fcidump sys MSO (Lcao, dl) (D_f1, dd) (Full_v2, dv) w)) Hcore = None"
proof -
  let ?r = "generate_fcidump sys MSO (Lcao, dl) (D_f1, dd) (Full_v2, dv) w"
  from succeeded_DoneE [OF ok] obtain x where "?r = Done x (final ?r)" ..
  from generate_fcidump_Done [OF this] obtain AO rest H L V where
    f: "dl = AO # rest" "files w (hcorefile sys) = Some (TensorFile H)"
       "store w Lcao = Some L"
       "trace (final ?r) = trace w @ [EvAllocate Hcore, EvAllocate Hcore_mo]
          @ (if fs_exists w (fci_files_dir sys) then [] else [EvMkdir (fci_files_dir sys)])
          @ [EvRead Hcore (hcorefile sys), EvAllocate Tmp, EvMult Tmp Lcao Hcore,
             EvMult Hcore_mo Tmp Lcao, EvDeallocate Tmp, EvDeallocate Hcore,
             EvExport (fcid_file sys), EvDeallocate Hcore_mo]"
       "store (final ?r) = (store w)(Hcore := None, Hcore_mo := None, Tmp := None)"
       "files (final ?r) = (if fs_exists w (fci_files_dir sys) then files w
                    else (files w)(fci_files_dir sys \<mapsto> Dir))
                   (fcid_file sys \<mapsto> FcidumpFile (rotated MSO AO L H) V (symvec sys))"
    by blast
  let ?tmp = "\<lambda>z1 nu. accumulate (map (\<lambda>mu. elems L [mu, z1] * elems H [mu, nu]) [0..<AO])"
  let ?h = "rotated MSO AO L H"
  have 1: "files (final ?r) (fcid_file sys) = Some (FcidumpFile ?h V (symvec sys))"
    by (simp add: f(6))
  have 2: "\<forall>z1 z2. elems ?h [z1, z2] =
            accumulate (map (\<lambda>nu. ?tmp z1 nu * elems L [nu, z2]) [0..<AO])"
    by (simp add: rotated_elems)
  have 3: "\<forall>z1 z2. elems ?h [z1, z2] =
            mat_mult AO (mat_mult AO (mat_transpose (mat_of L)) (mat_of H)) (mat_of L) z1 z2"
    by (simp add: rotated_mat_mult)
  have 4: "\<forall>z1 z2. elems ?h [z1, z2] =
            mat_mult AO (mat_transpose (mat_of L)) (mat_mult AO (mat_of H) (mat_of L)) z1 z2"
    by (simp add: rotated_mat_mult mat_mult_assoc)
  have 5: "new_events w ?r =
          [EvAllocate Hcore, EvAllocate Hcore_mo]
          @ (if fs_exists w (fci_files_dir sys) then [] else [EvMkdir (fci_files_dir sys)])
          @ [EvRead Hcore (hcorefile sys), EvAllocate Tmp, EvMult Tmp Lcao Hcore,
             EvMult Hcore_mo Tmp Lcao, EvDeallocate Tmp, EvDeallocate Hcore,
             EvExport (fcid_file sys), EvDeallocate Hcore_mo]"
    by (rule new_events_append) (simp add: f(4))
  have 6: "store (final ?r) Tmp = None" "store (final ?r) Hcore = None"
    by (simp_all add: f(5))
  show ?thesis
    apply (rule exI [of _ AO], rule exI [of _ rest], rule exI [of _ L], rule exI [of _ H],
           rule exI [of _ ?tmp], rule exI [of _ ?h], rule exI [of _ V],
           rule exI [of _ "symvec sys"])
    using f(1-3) 1 2 3 4 5 6 by blast
qed


theorem basis_rotation_witness:
  "succeeded (generate_fcidump sys_h2 2 (Lcao, [2, 2]) (D_f1, [2, 2]) (Full_v2, [2, 2, 2, 2]) wg_h2)
   \<and> (\<exists>h v sv.
        files (final (generate_fcidump sys_h2 2 (Lcao, [2, 2]) (D_f1, [2, 2])
                        (Full_v2, [2, 2, 2, 2]) wg_h2)) (fcid_file sys_h2)
          = Some (FcidumpFile h v sv)
        \<and> elems h [0, 0] = 40 \<and> elems h [0, 1] = 76 \<and> elems h [1, 0] = 76
        \<and> elems h [1, 1] = 144)"
proof -
  let ?r = "generate_fcidump sys_h2 2 (Lcao, [2, 2]) (D_f1, [2, 2]) (Full_v2, [2, 2, 2, 2]) wg_h2"
  from basis_rotation [OF wg_h2_succeeds] obtain AO rest L H tmp h v sv where
    a: "[2, 2] = AO # rest" and l: "store wg_h2 Lcao = Some L"
    and hf: "files wg_h2 (hcorefile sys_h2) = Some (TensorFile H)"
    and f: "files (final ?r) (fcid_file sys_h2) = Some (FcidumpFile h v sv)"
    and t: "\<forall>z1 nu. tmp z1 nu =
            accumulate (map (\<lambda>mu. elems L [mu, z1] * elems H [mu, nu]) [0..<AO])"
    and e: "\<forall>z1 z2. elems h [z1, z2] =
            accumulate (map (\<lambda>nu. tmp z1 nu * elems L [nu, z2]) [0..<AO])"
    by blast
  from a have AO: "AO = 2" by simp
  from l have L: "L = cd_lcao cd_h2" by (simp add: wg_h2_def)
  from hf have H: "H = hcore_h2" by (simp add: wg_h2_def w_h2_def)
  have u: "[0..<2] = [0, Suc 0]" by (simp add: upt_rec)
  have "elems h [0, 0] = 40" "elems h [0, 1] = 76" "elems h [1, 0] = 76" "elems h [1, 1] = 144"
    using e t unfolding AO L H
    by (simp_all add: u accumulate_def cd_h2_def hcore_h2_def)
  with f wg_h2_succeeds show ?thesis by blast
qed

subsection \<open>Reconstruction of the two-electron tensor\<close>

text \<open>
  Claim C1. The two-electron tensor the driver reconstructs and exports has the entries
  \<open>V[p,r,q,s] = \<Sum>c. Chol[p,r,c] * Chol[q,s,c]\<close>, the sum running over the auxiliary index in
  increasing order for every entry, and satisfies \<open>V[p,r,q,s] = V[q,s,p,r]\<close> exactly, for
  all index tuples. Of the element type only the commutativity of its multiplication is used;
  nothing is assumed of its addition.
\<close>

theorem reconstruction_symmetric:
  fixes up :: "('a::{zero,plus,times}) upstream"
  assumes ok: "succeeded (fci_driver up w0)"
    and comm: "\<forall>a b :: 'a. a * b = b * a"
  shows "\<exists>h v sv CV.
     files (final (fci_driver up w0)) (fcid_file (hf_sys_data up)) = Some (FcidumpFile h v sv)
     \<and> (if ccsd_restart (hf_sys_data up) w0
         then files w0 (v2file (hf_sys_data up)) = Some (TensorFile CV)
         else CV = cd_cholVpr (cd_of up w0))
     \<and> (\<forall>p r q s. elems v [p, r, q, s] =
            accumulate (map (\<lambda>c. elems CV [p, r, c] * elems CV [q, s, c])
                            [0..<cd_CI (cd_of up w0)]))
     \<and> (\<forall>p r q s. elems v [p, r, q, s] = elems v [q, s, p, r])"
proof -
  from fci_driver_export [OF ok] obtain CV AO rest H where
    cv: "if ccsd_restart (hf_sys_data up) w0
         then files w0 (v2file (hf_sys_data up)) = Some (TensorFile CV)
         else CV = cd_cholVpr (cd_of up w0)"
    and f: "files (final (fci_driver up w0)) (fcid_file (hf_sys_data up)) =
          Some (FcidumpFile (rotated (mo_space up) AO (cd_lcao (cd_of up w0)) H)
                  (reconstructed (mo_space up) (cd_CI (cd_of up w0)) CV)
                  (symvec (hf_sys_data up)))"
    by blast
  let ?v = "reconstructed (mo_space up) (cd_CI (cd_of up w0)) CV"
  have e: "elems ?v [p, r, q, s] =
            accumulate (map (\<lambda>c. elems CV [p, r, c] * elems CV [q, s, c])
                            [0..<cd_CI (cd_of up w0)])" for p r q s
    by (simp add: reconstructed_def mult_elems_v2)
  have "elems ?v [p, r, q, s] = elems ?v [q, s, p, r]" for p r q s
    unfolding e using comm by simp
  with cv f e show ?thesis by blast
qed

theorem reconstruction_symmetric_witness:
  "succeeded (fci_driver (up_h2 0 sys_h2) w_h2)
   \<and> (\<forall>a b :: int. a * b = b * a)
   \<and> (\<exists>h v sv.
        files (final (fci_driver (up_h2 0 sys_h2) w_h2)) (fcid_file sys_h2)
          = Some (FcidumpFile h v sv)
        \<and> elems v [0, 1, 1, 0] = elems v [1, 0, 0, 1])"
proof -
  have c: "\<forall>a b :: int. a * b = b * a" by (simp add: mult.commute)
  from reconstruction_symmetric [OF ephemeral_h2_succeeds c] obtain h v sv where
    "files (final (fci_driver (up_h2 0 sys_h2) w_h2)) (fcid_file sys_h2)
          = Some (FcidumpFile h v sv)"
    "\<forall>p r q s. elems v [p, r, q, s] = elems v [q, s, p, r]"
    by auto
  with ephemeral_h2_succeeds c show ?thesis by blast
qed

subsection \<open>The atomic-basis operator file\<close>

text \<open>
  Claim C10. In every run that completes, whichever checkpoint branch it took,
  \<open>generate_fcidump\<close> reads the atomic-basis operator from the file
  \<open>files_dir/../scf/out_fp.hcore\<close> before the two contractions of the basis rotation, and the
  exported one-electron block is computed from the contents of that file: the file existed
  when the run started, and held a tensor of the shape of the atomic basis.
\<close>

theorem hcore_read_in_every_run:
  fixes up :: "('a::{zero,plus,times}) upstream"
  assumes ok: "succeeded (fci_driver up w0)"
  shows "\<exists>H AO rest pre post h v sv.
     hcorefile (hf_sys_data up) =
       fci_files_dir (hf_sys_data up) @ ''/../scf/'' @ out_fp (hf_sys_data up) @ ''.hcore''
     \<and> files w0 (hcorefile (hf_sys_data up)) = Some (TensorFile H)
     \<and> dims (cd_lcao (cd_of up w0)) = AO # rest \<and> dims H = [AO, AO]
     \<and> new_events w0 (fci_driver up w0) =
          pre @ [EvRead Hcore (hcorefile (hf_sys_data up)), EvAllocate Tmp,
                 EvMult Tmp Lcao Hcore, EvMult Hcore_mo Tmp Lcao] @ post
     \<and> (\<forall>ev\<in>set pre. ev \<noteq> EvMult Tmp Lcao Hcore \<and> ev \<noteq> EvMult Hcore_mo Tmp Lcao)
     \<and> files (final (fci_driver up w0)) (fcid_file (hf_sys_data up)) = Some (FcidumpFile h v sv)
     \<and> h = rotated (mo_space up) AO (cd_lcao (cd_of up w0)) H"
proof -
  let ?sys = "hf_sys_data up"
  from fci_driver_export [OF ok] obtain pre0 CV AO rest H where
    l: "dims (cd_lcao (cd_of up w0)) = AO # rest"
    and h: "files w0 (hcorefile ?sys) = Some (TensorFile H)" "dims H = [AO, AO]"
    and n: "new_events w0 (fci_driver up w0) =
          pre0 @ export_events ?sys (fs_exists w0 (fci_files_dir ?sys))"
    and p: "\<forall>ev\<in>set pre0. \<forall>a b c. ev \<noteq> EvMult a b c"
    and f: "files (final (fci_driver up w0)) (fcid_file ?sys) =
          Some (FcidumpFile (rotated (mo_space up) AO (cd_lcao (cd_of up w0)) H)
                  (reconstructed (mo_space up) (cd_CI (cd_of up w0)) CV) (symvec ?sys))"
    by blast
  let ?pre = "pre0 @ [EvBarrier, EvAllocate Full_v2, EvMult Full_v2 CholVpr CholVpr,
                      EvDeallocate CholVpr, EvAllocate Hcore, EvAllocate Hcore_mo]
              @ (if fs_exists w0 (fci_files_dir ?sys) then [] else [EvMkdir (fci_files_dir ?sys)])"
  let ?post = "[EvDeallocate Tmp, EvDeallocate Hcore, EvExport (fcid_file ?sys),
                EvDeallocate Hcore_mo, EvDeallocate Lcao, EvDeallocate D_f1,
                EvDeallocate Full_v2, EvFlushSync]"
  have 1: "new_events w0 (fci_driver up w0) =
          ?pre @ [EvRead Hcore (hcorefile ?sys), EvAllocate Tmp,
                 EvMult Tmp Lcao Hcore, EvMult Hcore_mo Tmp Lcao] @ ?post"
    by (simp add: n export_events_def)
  have 2: "\<forall>ev\<in>set ?pre. ev \<noteq> EvMult Tmp Lcao Hcore \<and> ev \<noteq> EvMult Hcore_mo Tmp Lcao"
    using p by auto
  show ?thesis
    apply (rule exI [of _ H], rule exI [of _ AO], rule exI [of _ rest], rule exI [of _ ?pre],
           rule exI [of _ ?post])
    using l h 1 2 f by (simp add: hcorefile_def)
qed

theorem hcore_read_in_every_run_witness:
  "succeeded (fci_driver (up_h2 1 (with_flags False True sys_h2)) w_h2)
   \<and> files w_h2 (hcorefile sys_h2) = Some (TensorFile hcore_h2)
   \<and> (\<exists>pre post.
         new_events w_h2 (fci_driver (up_h2 1 (with_flags False True sys_h2)) w_h2) =
           pre @ [EvRead Hcore (hcorefile sys_h2), EvAllocate Tmp,
                  EvMult Tmp Lcao Hcore, EvMult Hcore_mo Tmp Lcao] @ post)"
proof -
  from hcore_read_in_every_run [OF persist_h2_succeeds [of 1]] obtain pre post where
    "new_events w_h2 (fci_driver (up_h2 1 (with_flags False True sys_h2)) w_h2) =
           pre @ [EvRead Hcore (hcorefile sys_h2), EvAllocate Tmp,
                  EvMult Tmp Lcao Hcore, EvMult Hcore_mo Tmp Lcao] @ post"
    by auto
  with persist_h2_succeeds [of 1] show ?thesis by auto
qed

subsection \<open>The checkpoint branches\<close>

text \<open>
  Claim C3. The driver takes the restore branch exactly when the restart flag \<open>readt\<close> is set
  or both checkpoint files exist: exactly then the first thing the run does is to read
  \<open>d_f1\<close> from \<open>f1file\<close>. When the run completes in that branch, both files held tensors, the
  run read them, in this order, then executed a barrier, and only then went on to the
  reconstruction and the export, which used the vectors read from disk.
\<close>

theorem restore_branch:
  fixes up :: "('a::{zero,plus,times}) upstream"
  shows "(EvRead D_f1 (f1file (hf_sys_data up)) \<in> set (new_events w0 (fci_driver up w0))
          \<longleftrightarrow> readt (ccsd_options (options_map (hf_sys_data up)))
              \<or> (fs_exists w0 (f1file (hf_sys_data up)) \<and> fs_exists w0 (v2file (hf_sys_data up))))
     \<and> (succeeded (fci_driver up w0)
          \<and> (readt (ccsd_options (options_map (hf_sys_data up)))
              \<or> (fs_exists w0 (f1file (hf_sys_data up)) \<and> fs_exists w0 (v2file (hf_sys_data up))))
         \<longrightarrow> (\<exists>D1 CV h.
               files w0 (f1file (hf_sys_data up)) = Some (TensorFile D1)
               \<and> files w0 (v2file (hf_sys_data up)) = Some (TensorFile CV)
               \<and> new_events w0 (fci_driver up w0) =
                    [EvRead D_f1 (f1file (hf_sys_data up)),
                     EvRead CholVpr (v2file (hf_sys_data up)), EvBarrier]
                    @ export_events (hf_sys_data up)
                        (fs_exists w0 (fci_files_dir (hf_sys_data up)))
               \<and> files (final (fci_driver up w0)) (fcid_file (hf_sys_data up)) =
                    Some (FcidumpFile h
                            (reconstructed (mo_space up) (cd_CI (cd_of up w0)) CV)
                            (symvec (hf_sys_data up)))))"
proof (intro conjI impI)
  show "EvRead D_f1 (f1file (hf_sys_data up)) \<in> set (new_events w0 (fci_driver up w0))
          \<longleftrightarrow> readt (ccsd_options (options_map (hf_sys_data up)))
              \<or> (fs_exists w0 (f1file (hf_sys_data up)) \<and> fs_exists w0 (v2file (hf_sys_data up)))"
    by (simp add: fci_driver_reads_f1_iff ccsd_restart_def)
next
  assume a: "succeeded (fci_driver up w0)
          \<and> (readt (ccsd_options (options_map (hf_sys_data up)))
              \<or> (fs_exists w0 (f1file (hf_sys_data up)) \<and> fs_exists w0 (v2file (hf_sys_data up))))"
  then have br: "ccsd_restart (hf_sys_data up) w0"
    by (simp add: ccsd_restart_def)
  from a have ok: "succeeded (fci_driver up w0)" ..
  from fci_driver_restore_Done [OF ok br] obtain D1 CV AO rest H where
    f: "files w0 (f1file (hf_sys_data up)) = Some (TensorFile D1)"
       "files w0 (v2file (hf_sys_data up)) = Some (TensorFile CV)"
       "trace (final (fci_driver up w0)) = trace w0
          @ [EvRead D_f1 (f1file (hf_sys_data up)), EvRead CholVpr (v2file (hf_sys_data up)),
             EvBarrier]
          @ export_events (hf_sys_data up) (fs_exists w0 (fci_files_dir (hf_sys_data up)))"
       "files (final (fci_driver up w0)) =
          (if fs_exists w0 (fci_files_dir (hf_sys_data up)) then files w0
           else (files w0)(fci_files_dir (hf_sys_data up) \<mapsto> Dir))
          (fcid_file (hf_sys_data up) \<mapsto>
             FcidumpFile (rotated (mo_space up) AO (cd_lcao (cd_of up w0)) H)
               (reconstructed (mo_space up) (cd_CI (cd_of up w0)) CV)
               (symvec (hf_sys_data up)))"
    by blast
  show "\<exists>D1 CV h.
               files w0 (f1file (hf_sys_data up)) = Some (TensorFile D1)
               \<and> files w0 (v2file (hf_sys_data up)) = Some (TensorFile CV)
               \<and> new_events w0 (fci_driver up w0) =
                    [EvRead D_f1 (f1file (hf_sys_data up)),
                     EvRead CholVpr (v2file (hf_sys_data up)), EvBarrier]
                    @ export_events (hf_sys_data up)
                        (fs_exists w0 (fci_files_dir (hf_sys_data up)))
               \<and> files (final (fci_driver up w0)) (fcid_file (hf_sys_data up)) =
                    Some (FcidumpFile h
                            (reconstructed (mo_space up) (cd_CI (cd_of up w0)) CV)
                            (symvec (hf_sys_data up)))"
    apply (rule exI [of _ D1], rule exI [of _ CV],
           rule exI [of _ "rotated (mo_space up) AO (cd_lcao (cd_of up w0)) H"])
    using f by (simp add: new_events_def)
qed

theorem restore_branch_witness:
  "fs_exists w_ckpt_h2 (f1file sys_h2) \<and> fs_exists w_ckpt_h2 (v2file sys_h2)
   \<and> succeeded (fci_driver (up_h2 0 sys_h2) w_ckpt_h2)
   \<and> EvRead D_f1 (f1file sys_h2) \<in> set (new_events w_ckpt_h2 (fci_driver (up_h2 0 sys_h2) w_ckpt_h2))
   \<and> new_events w_ckpt_h2 (fci_driver (up_h2 0 sys_h2) w_ckpt_h2) =
        [EvRead D_f1 (f1file sys_h2), EvRead CholVpr (v2file sys_h2), EvBarrier]
        @ export_events sys_h2 False"
  using restore_branch [of "up_h2 0 sys_h2" w_ckpt_h2] restore_h2_succeeds [of 0]
  by (auto simp: fs_exists_def)


text \<open>
  Claim C6. When the restart flag is set and the checkpoint is not on disk, the run ends in
  an IOError raised by the first read that finds no file: \<open>cd_svd_driver\<close> was called with the
  restart flag, nothing is contracted, nothing is exported and the disk is left as it was.
\<close>

theorem restore_without_files_fails:
  fixes up :: "('a::{zero,plus,times}) upstream"
  assumes rd: "readt (ccsd_options (options_map (hf_sys_data up)))"
  shows "cd_of up w0 = cd_svd_driver up True (cholfile (hf_sys_data up)) (files w0)
     \<and> (files w0 (f1file (hf_sys_data up)) = None
         \<longrightarrow> failure (fci_driver up w0) = Some IOError
             \<and> new_events w0 (fci_driver up w0) = [EvRead D_f1 (f1file (hf_sys_data up))]
             \<and> files (final (fci_driver up w0)) = files w0)
     \<and> (files w0 (v2file (hf_sys_data up)) = None
         \<and> (\<exists>D1. files w0 (f1file (hf_sys_data up)) = Some (TensorFile D1)
                 \<and> dims D1 = dims (cd_d_f1 (cd_of up w0)))
         \<longrightarrow> failure (fci_driver up w0) = Some IOError
             \<and> new_events w0 (fci_driver up w0) =
                  [EvRead D_f1 (f1file (hf_sys_data up)), EvRead CholVpr (v2file (hf_sys_data up))]
             \<and> files (final (fci_driver up w0)) = files w0)"
proof -
  have br: "ccsd_restart (hf_sys_data up) w0"
    using rd by (simp add: ccsd_restart_def)
  have 1: "cd_of up w0 = cd_svd_driver up True (cholfile (hf_sys_data up)) (files w0)"
    using br by (simp add: cd_of_def)
  have 2: "failure (fci_driver up w0) = Some IOError
             \<and> new_events w0 (fci_driver up w0) = [EvRead D_f1 (f1file (hf_sys_data up))]
             \<and> files (final (fci_driver up w0)) = files w0"
    if "files w0 (f1file (hf_sys_data up)) = None"
    using that br
    by (simp add: fci_driver_unfold checkpoint_def read_from_disk_def log_def new_events_def)
  have 3: "failure (fci_driver up w0) = Some IOError
             \<and> new_events w0 (fci_driver up w0) =
                  [EvRead D_f1 (f1file (hf_sys_data up)), EvRead CholVpr (v2file (hf_sys_data up))]
             \<and> files (final (fci_driver up w0)) = files w0"
    if "files w0 (v2file (hf_sys_data up)) = None"
      and "files w0 (f1file (hf_sys_data up)) = Some (TensorFile D1)"
      and "dims D1 = dims (cd_d_f1 (cd_of up w0))" for D1
    using that br
    by (simp add: fci_driver_unfold checkpoint_def read_from_disk_def log_def new_events_def)
  from 1 2 3 show ?thesis by blast
qed

theorem restore_without_files_fails_witness:
  "readt (ccsd_options (options_map (with_flags True False sys_h2)))
   \<and> files w_h2 (f1file sys_h2) = None \<and> files w_h2 (v2file sys_h2) = None
   \<and> failure (fci_driver (up_h2 0 (with_flags True False sys_h2)) w_h2) = Some IOError
   \<and> new_events w_h2 (fci_driver (up_h2 0 (with_flags True False sys_h2)) w_h2)
       = [EvRead D_f1 (f1file sys_h2)]"
  using restore_without_files_fails [of "up_h2 0 (with_flags True False sys_h2)" w_h2]
  by simp

text \<open>
  Claim C8. When neither flag is set and the checkpoint files are not both on disk, the run,
  however it ends, touches none of \<open>f1file\<close>, \<open>v2file\<close> and \<open>cholfile\<close>: no event of the run
  reads, writes or creates them, and they are on disk afterwards what they were before. A
  run that completes consists of the barrier, the reconstruction and the export, and nothing
  else.
\<close>

theorem ephemeral_run_no_checkpoint_io:
  fixes up :: "('a::{zero,plus,times}) upstream"
  assumes nrd: "\<not> readt (ccsd_options (options_map (hf_sys_data up)))"
    and nwr: "\<not> writet (ccsd_options (options_map (hf_sys_data up)))"
    and nfiles: "\<not> (fs_exists w0 (f1file (hf_sys_data up)) \<and> fs_exists w0 (v2file (hf_sys_data up)))"
  shows "(\<forall>ev\<in>set (new_events w0 (fci_driver up w0)).
            event_path ev \<noteq> Some (f1file (hf_sys_data up))
            \<and> event_path ev \<noteq> Some (v2file (hf_sys_data up))
            \<and> event_path ev \<noteq> Some (cholfile (hf_sys_data up)))
     \<and> files (final (fci_driver up w0)) (f1file (hf_sys_data up)) = files w0 (f1file (hf_sys_data up))
     \<and> files (final (fci_driver up w0)) (v2file (hf_sys_data up)) = files w0 (v2file (hf_sys_data up))
     \<and> files (final (fci_driver up w0)) (cholfile (hf_sys_data up))
          = files w0 (cholfile (hf_sys_data up))
     \<and> (succeeded (fci_driver up w0) \<longrightarrow>
          new_events w0 (fci_driver up w0) =
            [EvBarrier, EvAllocate Full_v2, EvMult Full_v2 CholVpr CholVpr, EvDeallocate CholVpr,
             EvAllocate Hcore, EvAllocate Hcore_mo]
            @ (if fs_exists w0 (fci_files_dir (hf_sys_data up)) then []
               else [EvMkdir (fci_files_dir (hf_sys_data up))])
            @ [EvRead Hcore (hcorefile (hf_sys_data up)), EvAllocate Tmp, EvMult Tmp Lcao Hcore,
               EvMult Hcore_mo Tmp Lcao, EvDeallocate Tmp, EvDeallocate Hcore,
               EvExport (fcid_file (hf_sys_data up)), EvDeallocate Hcore_mo,
               EvDeallocate Lcao, EvDeallocate D_f1, EvDeallocate Full_v2, EvFlushSync])"
proof -
  let ?sys = "hf_sys_data up"
  have br: "\<not> ccsd_restart ?sys w0"
    using nrd nfiles by (simp add: ccsd_restart_def)
  from fci_driver_ephemeral_frame(1) [OF br nwr] obtain evs where
    t: "trace (final (fci_driver up w0)) = trace w0 @ evs"
    and a: "\<forall>ev\<in>set evs. event_path ev
                 \<in> {None, Some (fci_files_dir ?sys), Some (hcorefile ?sys), Some (fcid_file ?sys)}"
    by blast
  have n: "new_events w0 (fci_driver up w0) = evs"
    using t by (rule new_events_append)
  have 1: "\<forall>ev\<in>set (new_events w0 (fci_driver up w0)).
            event_path ev \<noteq> Some (f1file ?sys) \<and> event_path ev \<noteq> Some (v2file ?sys)
            \<and> event_path ev \<noteq> Some (cholfile ?sys)"
    unfolding n using a by (auto simp: paths_distinct)
  have 2: "files (final (fci_driver up w0)) (f1file ?sys) = files w0 (f1file ?sys)"
    "files (final (fci_driver up w0)) (v2file ?sys) = files w0 (v2file ?sys)"
    "files (final (fci_driver up w0)) (cholfile ?sys) = files w0 (cholfile ?sys)"
    by (rule fci_driver_ephemeral_frame(2) [OF br nwr]; simp add: paths_distinct)+
  have 3: "new_events w0 (fci_driver up w0) = export_events ?sys (fs_exists w0 (fci_files_dir ?sys))"
    if "succeeded (fci_driver up w0)"
    using fci_driver_ephemeral_Done [OF that br nwr] by (auto simp: new_events_def)
  from 1 2 3 show ?thesis
    by (simp add: export_events_def)
qed

theorem ephemeral_run_no_checkpoint_io_witness:
  "\<not> readt (ccsd_options (options_map sys_h2)) \<and> \<not> writet (ccsd_options (options_map sys_h2))
   \<and> files w_h2 (f1file sys_h2) = None
   \<and> succeeded (fci_driver (up_h2 0 sys_h2) w_h2)
   \<and> files (final (fci_driver (up_h2 0 sys_h2) w_h2)) (f1file sys_h2) = None
   \<and> files (final (fci_driver (up_h2 0 sys_h2) w_h2)) (v2file sys_h2) = None
   \<and> files (final (fci_driver (up_h2 0 sys_h2) w_h2)) (cholfile sys_h2) = None
   \<and> new_events w_h2 (fci_driver (up_h2 0 sys_h2) w_h2) =
        [EvBarrier, EvAllocate Full_v2, EvMult Full_v2 CholVpr CholVpr, EvDeallocate CholVpr,
         EvAllocate Hcore, EvAllocate Hcore_mo, EvMkdir (fci_files_dir sys_h2),
         EvRead Hcore (hcorefile sys_h2), EvAllocate Tmp, EvMult Tmp Lcao Hcore,
         EvMult Hcore_mo Tmp Lcao, EvDeallocate Tmp, EvDeallocate Hcore,
         EvExport (fcid_file sys_h2), EvDeallocate Hcore_mo,
         EvDeallocate Lcao, EvDeallocate D_f1, EvDeallocate Full_v2, EvFlushSync]"
  using ephemeral_run_no_checkpoint_io [of "up_h2 0 sys_h2" w_h2] ephemeral_h2_succeeds
  by (simp add: fs_exists_def)

text \<open>
  Claim C4. The driver takes the persist branch exactly when the write flag \<open>writet\<close> is set
  and the restore branch was not taken: exactly then, however the run ends, it creates the
  checkpoint directory or writes \<open>d_f1\<close> to \<open>f1file\<close>. In that branch, when the directory
  exists or can be created and the two tensor files can be opened, the run first creates the
  directory, only if it does not exist (an existing directory is left as it is, and running
  the creation step again changes nothing and does not fail), then writes both tensors, and
  then, on rank 0 only, writes the vector count followed by a newline as the whole content
  of the count file, when that file can be opened; on any other rank no event of the run
  touches the count file and it is left as it was. These effects are on disk whether or not
  the stages after the checkpoint complete.
\<close>

theorem persist_branch:
  fixes up :: "('a::{zero,plus,times}) upstream"
  shows "((EvMkdir (files_dir (hf_sys_data up)) \<in> set (new_events w0 (fci_driver up w0))
           \<or> EvWrite D_f1 (f1file (hf_sys_data up)) \<in> set (new_events w0 (fci_driver up w0)))
          \<longleftrightarrow> writet (ccsd_options (options_map (hf_sys_data up)))
              \<and> \<not> (readt (ccsd_options (options_map (hf_sys_data up)))
                    \<or> (fs_exists w0 (f1file (hf_sys_data up))
                        \<and> fs_exists w0 (v2file (hf_sys_data up)))))
     \<and> (writet (ccsd_options (options_map (hf_sys_data up)))
         \<and> \<not> (readt (ccsd_options (options_map (hf_sys_data up)))
               \<or> (fs_exists w0 (f1file (hf_sys_data up)) \<and> fs_exists w0 (v2file (hf_sys_data up))))
         \<and> (fs_exists w0 (files_dir (hf_sys_data up))
              \<or> files_dir (hf_sys_data up) \<notin> unwritable w0)
         \<and> can_open_out w0 (f1file (hf_sys_data up))
         \<and> can_open_out w0 (v2file (hf_sys_data up))
         \<longrightarrow>
           (\<exists>rest.
              new_events w0 (fci_driver up w0) =
                (if fs_exists w0 (files_dir (hf_sys_data up)) then []
                 else [EvMkdir (files_dir (hf_sys_data up))])
                @ [EvWrite D_f1 (f1file (hf_sys_data up)),
                   EvWrite CholVpr (v2file (hf_sys_data up))]
                @ (if pg_rank up = 0
                   then [if can_open_out w0 (cholfile (hf_sys_data up))
                         then EvWriteText (cholfile (hf_sys_data up))
                                (dec (cd_chol_count (cd_of up w0)) @ [CHR 0x0A])
                         else EvStderr (''Error opening file '' @ cholfile (hf_sys_data up)
                                        @ [CHR 0x0A])]
                   else [])
                @ EvBarrier # rest
              \<and> (\<forall>ev\<in>set rest.
                    event_path ev \<noteq> Some (files_dir (hf_sys_data up))
                    \<and> event_path ev \<noteq> Some (f1file (hf_sys_data up))
                    \<and> event_path ev \<noteq> Some (v2file (hf_sys_data up))
                    \<and> event_path ev \<noteq> Some (cholfile (hf_sys_data up))))
           \<and> files (final (fci_driver up w0)) (files_dir (hf_sys_data up)) =
               (if fs_exists w0 (files_dir (hf_sys_data up))
                then files w0 (files_dir (hf_sys_data up)) else Some Dir)
           \<and> files (final (fci_driver up w0)) (f1file (hf_sys_data up))
               = Some (TensorFile (cd_d_f1 (cd_of up w0)))
           \<and> files (final (fci_driver up w0)) (v2file (hf_sys_data up))
               = Some (TensorFile (cd_cholVpr (cd_of up w0)))
           \<and> (pg_rank up = 0 \<and> can_open_out w0 (cholfile (hf_sys_data up)) \<longrightarrow>
                files (final (fci_driver up w0)) (cholfile (hf_sys_data up))
                  = Some (TextFile (dec (cd_chol_count (cd_of up w0)) @ [CHR 0x0A]))
                \<and> CHR 0x0A \<notin> set (dec (cd_chol_count (cd_of up w0))))
           \<and> (pg_rank up \<noteq> 0 \<longrightarrow>
                files (final (fci_driver up w0)) (cholfile (hf_sys_data up))
                  = files w0 (cholfile (hf_sys_data up))
                \<and> (\<forall>ev\<in>set (new_events w0 (fci_driver up w0)).
                      event_path ev \<noteq> Some (cholfile (hf_sys_data up)))))
     \<and> (\<forall>w1. ensure_directory (files_dir (hf_sys_data up)) w0 = Done () w1
            \<longrightarrow> ensure_directory (files_dir (hf_sys_data up)) w1 = Done () w1)
     \<and> (fs_exists w0 (files_dir (hf_sys_data up))
         \<longrightarrow> ensure_directory (files_dir (hf_sys_data up)) w0 = Done () w0)"
proof -
  let ?sys = "hf_sys_data up"
  let ?r = "fci_driver up w0"
  let ?restore = "readt (ccsd_options (options_map ?sys))
                  \<or> (fs_exists w0 (f1file ?sys) \<and> fs_exists w0 (v2file ?sys))"
  let ?wr = "writet (ccsd_options (options_map ?sys))"
  let ?n = "cd_chol_count (cd_of up w0)"
  let ?ok = "(fs_exists w0 (files_dir ?sys) \<or> files_dir ?sys \<notin> unwritable w0)
             \<and> can_open_out w0 (f1file ?sys) \<and> can_open_out w0 (v2file ?sys)"
  have r: "ccsd_restart ?sys w0 \<longleftrightarrow> ?restore"
    by (simp add: ccsd_restart_def)
  have 1: "(EvMkdir (files_dir ?sys) \<in> set (new_events w0 ?r)
            \<or> EvWrite D_f1 (f1file ?sys) \<in> set (new_events w0 ?r)) \<longleftrightarrow> ?wr \<and> \<not> ?restore"
    using fci_driver_persist_iff [of up w0] by (simp only: r)
  have 6: "persist_events ?sys (pg_rank up) ?n w0 =
             (if fs_exists w0 (files_dir ?sys) then [] else [EvMkdir (files_dir ?sys)])
             @ [EvWrite D_f1 (f1file ?sys), EvWrite CholVpr (v2file ?sys)]
             @ (if pg_rank up = 0
                then [if can_open_out w0 (cholfile ?sys)
                      then EvWriteText (cholfile ?sys) (dec ?n @ [CHR 0x0A])
                      else EvStderr (''Error opening file '' @ cholfile ?sys @ [CHR 0x0A])]
                else [])"
    by (simp add: persist_events_def)
  have 2: "(\<exists>rest.
              new_events w0 ?r = persist_events ?sys (pg_rank up) ?n w0 @ EvBarrier # rest
              \<and> (\<forall>ev\<in>set rest.
                    event_path ev \<noteq> Some (files_dir ?sys)
                    \<and> event_path ev \<noteq> Some (f1file ?sys)
                    \<and> event_path ev \<noteq> Some (v2file ?sys)
                    \<and> event_path ev \<noteq> Some (cholfile ?sys)))
           \<and> files (final ?r) (files_dir ?sys) =
               (if fs_exists w0 (files_dir ?sys) then files w0 (files_dir ?sys) else Some Dir)
           \<and> files (final ?r) (f1file ?sys) = Some (TensorFile (cd_d_f1 (cd_of up w0)))
           \<and> files (final ?r) (v2file ?sys) = Some (TensorFile (cd_cholVpr (cd_of up w0)))
           \<and> (pg_rank up = 0 \<and> can_open_out w0 (cholfile ?sys) \<longrightarrow>
                files (final ?r) (cholfile ?sys) = Some (TextFile (dec ?n @ [CHR 0x0A]))
                \<and> CHR 0x0A \<notin> set (dec ?n))
           \<and> (pg_rank up \<noteq> 0 \<longrightarrow>
                files (final ?r) (cholfile ?sys) = files w0 (cholfile ?sys)
                \<and> (\<forall>ev\<in>set (new_events w0 ?r). event_path ev \<noteq> Some (cholfile ?sys)))"
    if h: "?wr \<and> \<not> ?restore \<and> ?ok"
  proof -
    from h r have nbr: "\<not> ccsd_restart ?sys w0" and wr: ?wr
      and d: "fs_exists w0 (files_dir ?sys) \<or> files_dir ?sys \<notin> unwritable w0"
      and o1: "can_open_out w0 (f1file ?sys)" and o2: "can_open_out w0 (v2file ?sys)"
      by simp_all
    note st = fci_driver_persist_stage [OF nbr wr d o1 o2]
    from st(1) obtain rest where
      n: "new_events w0 ?r = persist_events ?sys (pg_rank up) ?n w0 @ EvBarrier # rest"
      and a: "\<forall>ev\<in>set rest. event_path ev
                \<in> {None, Some (fci_files_dir ?sys), Some (hcorefile ?sys), Some (fcid_file ?sys)}"
      by blast
    have a': "\<forall>ev\<in>set rest.
                    event_path ev \<noteq> Some (files_dir ?sys)
                    \<and> event_path ev \<noteq> Some (f1file ?sys)
                    \<and> event_path ev \<noteq> Some (v2file ?sys)
                    \<and> event_path ev \<noteq> Some (cholfile ?sys)"
      using a by (auto simp: paths_distinct)
    have c: "\<forall>ev\<in>set (new_events w0 ?r). event_path ev \<noteq> Some (cholfile ?sys)"
      if "pg_rank up \<noteq> 0"
      unfolding n using that a' by (auto simp: persist_events_def paths_distinct)
    from n a' have e: "\<exists>rest.
              new_events w0 ?r = persist_events ?sys (pg_rank up) ?n w0 @ EvBarrier # rest
              \<and> (\<forall>ev\<in>set rest.
                    event_path ev \<noteq> Some (files_dir ?sys)
                    \<and> event_path ev \<noteq> Some (f1file ?sys)
                    \<and> event_path ev \<noteq> Some (v2file ?sys)
                    \<and> event_path ev \<noteq> Some (cholfile ?sys))"
      by blast
    from e st(2-5) c dec_no_newline show ?thesis
      by simp
  qed
  have 4: "\<forall>w1. ensure_directory (files_dir ?sys) w0 = Done () w1
            \<longrightarrow> ensure_directory (files_dir ?sys) w1 = Done () w1"
    by (blast intro: ensure_directory_idempotent)
  have 5: "fs_exists w0 (files_dir ?sys) \<longrightarrow> ensure_directory (files_dir ?sys) w0 = Done () w0"
    by (simp add: ensure_directory_existing)
  from 1 2 4 5 show ?thesis
    unfolding 6 by (simp only: append_assoc) blast
qed


theorem persist_branch_witness:
  "writet (ccsd_options (options_map (with_flags False True sys_h2)))
   \<and> \<not> fs_exists w_empty_h2 (files_dir sys_h2)
   \<and> \<not> succeeded (fci_driver (up_h2 0 (with_flags False True sys_h2)) w_empty_h2)
   \<and> (\<exists>rest. new_events w_empty_h2 (fci_driver (up_h2 0 (with_flags False True sys_h2)) w_empty_h2)
         = [EvMkdir (files_dir sys_h2), EvWrite D_f1 (f1file sys_h2),
            EvWrite CholVpr (v2file sys_h2),
            EvWriteText (cholfile sys_h2) [CHR ''3'', CHR 0x0A], EvBarrier] @ rest)
   \<and> files (final (fci_driver (up_h2 0 (with_flags False True sys_h2)) w_empty_h2))
        (files_dir sys_h2) = Some Dir
   \<and> files (final (fci_driver (up_h2 0 (with_flags False True sys_h2)) w_empty_h2))
        (f1file sys_h2) = Some (TensorFile (cd_d_f1 cd_h2))
   \<and> files (final (fci_driver (up_h2 0 (with_flags False True sys_h2)) w_empty_h2))
        (cholfile sys_h2) = Some (TextFile [CHR ''3'', CHR 0x0A])
   \<and> fs_exists w_dir_h2 (files_dir sys_h2)
   \<and> (\<exists>rest. new_events w_dir_h2 (fci_driver (up_h2 0 (with_flags False True sys_h2)) w_dir_h2)
         = [EvWrite D_f1 (f1file sys_h2), EvWrite CholVpr (v2file sys_h2),
            EvWriteText (cholfile sys_h2) [CHR ''3'', CHR 0x0A], EvBarrier] @ rest)
   \<and> files (final (fci_driver (up_h2 0 (with_flags False True sys_h2)) w_dir_h2))
        (files_dir sys_h2) = Some Dir"
proof -
  let ?up = "up_h2 0 (with_flags False True sys_h2)"
  have n: "\<not> succeeded (fci_driver ?up w_empty_h2)"
  proof
    assume "succeeded (fci_driver ?up w_empty_h2)"
    from fci_driver_export [OF this] show False by simp
  qed
  from persist_branch [of ?up w_empty_h2] have
    "(\<exists>rest. new_events w_empty_h2 (fci_driver ?up w_empty_h2)
         = [EvMkdir (files_dir sys_h2), EvWrite D_f1 (f1file sys_h2),
            EvWrite CholVpr (v2file sys_h2),
            EvWriteText (cholfile sys_h2) [CHR ''3'', CHR 0x0A], EvBarrier] @ rest)
     \<and> files (final (fci_driver ?up w_empty_h2)) (files_dir sys_h2) = Some Dir
     \<and> files (final (fci_driver ?up w_empty_h2)) (f1file sys_h2) = Some (TensorFile (cd_d_f1 cd_h2))
     \<and> files (final (fci_driver ?up w_empty_h2)) (cholfile sys_h2)
         = Some (TextFile [CHR ''3'', CHR 0x0A])"
    by (simp add: fs_exists_def can_open_out_def dec_3) blast
  moreover from persist_branch [of ?up w_dir_h2] have
    "(\<exists>rest. new_events w_dir_h2 (fci_driver ?up w_dir_h2)
         = [EvWrite D_f1 (f1file sys_h2), EvWrite CholVpr (v2file sys_h2),
            EvWriteText (cholfile sys_h2) [CHR ''3'', CHR 0x0A], EvBarrier] @ rest)
     \<and> files (final (fci_driver ?up w_dir_h2)) (files_dir sys_h2) = Some Dir"
    by (simp add: fs_exists_def can_open_out_def dec_3) blast
  ultimately show ?thesis
    using n by (simp add: fs_exists_def)
qed

text \<open>
  Claim C7, as the code has it. The claim asks that a failure to open the count file on the
  writer be turned into an abort of the whole group. The code reports the failure on the
  standard error stream and goes on: at the input below rank 0 cannot open the count file,
  and its run completes, export included.
\<close>

theorem count_file_open_failure_counterexample:
  "pg_rank (up_h2 0 (with_flags False True sys_h2)) = 0
   \<and> writet (ccsd_options (options_map (with_flags False True sys_h2)))
   \<and> \<not> can_open_out w_ro_h2 (cholfile sys_h2)
   \<and> failure (fci_driver (up_h2 0 (with_flags False True sys_h2)) w_ro_h2) = None
   \<and> EvStderr (''Error opening file '' @ cholfile sys_h2 @ [CHR 0x0A])
        \<in> set (new_events w_ro_h2 (fci_driver (up_h2 0 (with_flags False True sys_h2)) w_ro_h2))
   \<and> EvExport (fcid_file sys_h2)
        \<in> set (new_events w_ro_h2 (fci_driver (up_h2 0 (with_flags False True sys_h2)) w_ro_h2))"
proof -
  let ?up = "up_h2 0 (with_flags False True sys_h2)"
  have br: "\<not> ccsd_restart (hf_sys_data ?up) w_ro_h2"
    by (simp add: ccsd_restart_def fs_exists_def)
  have wr: "writet (ccsd_options (options_map (hf_sys_data ?up)))"
    by simp
  from fci_driver_persist_Done [OF persist_ro_h2_succeeds [of 0] br wr] have
    "trace (final (fci_driver ?up w_ro_h2)) = trace w_ro_h2
       @ persist_events (hf_sys_data ?up) (pg_rank ?up) (cd_chol_count (cd_of ?up w_ro_h2)) w_ro_h2
       @ export_events (hf_sys_data ?up) (fs_exists w_ro_h2 (fci_files_dir (hf_sys_data ?up)))"
    by blast
  from new_events_append [OF this] have
    "new_events w_ro_h2 (fci_driver ?up w_ro_h2) =
       persist_events (hf_sys_data ?up) 0 3 w_ro_h2 @ export_events (hf_sys_data ?up) False"
    by (simp add: fs_exists_def)
  moreover have "failure (fci_driver ?up w_ro_h2) = None"
    using persist_ro_h2_succeeds [of 0] by (cases "fci_driver ?up w_ro_h2") auto
  ultimately show ?thesis
    by (simp add: persist_events_def export_events_def can_open_out_def fs_exists_def)
qed

text \<open>
  Claim C7, amended. When rank 0, in the persist branch, cannot open the count file for
  writing, it reports \<open>Error opening file\<close> with the file's name on the standard error
  stream, leaves the count file as it was and goes on as the other ranks do: the run
  completes whenever the directory, the two tensor files, the atomic-basis operator file and
  the export file are in order.
\<close>

theorem count_file_open_failure_reported:
  fixes up :: "('a::{zero,plus,times}) upstream"
  assumes rk: "pg_rank up = 0"
    and nrd: "\<not> readt (ccsd_options (options_map (hf_sys_data up)))"
    and nfiles: "\<not> (fs_exists w0 (f1file (hf_sys_data up)) \<and> fs_exists w0 (v2file (hf_sys_data up)))"
    and wr: "writet (ccsd_options (options_map (hf_sys_data up)))"
    and closed: "\<not> can_open_out w0 (cholfile (hf_sys_data up))"
    and d: "fs_exists w0 (files_dir (hf_sys_data up)) \<or> files_dir (hf_sys_data up) \<notin> unwritable w0"
    and o1: "can_open_out w0 (f1file (hf_sys_data up))"
    and o2: "can_open_out w0 (v2file (hf_sys_data up))"
    and l: "dims (cd_lcao (cd_of up w0)) = AO # rest"
    and h: "files w0 (hcorefile (hf_sys_data up)) = Some (TensorFile H)" "dims H = [AO, AO]"
    and fd: "fs_exists w0 (fci_files_dir (hf_sys_data up))
         \<or> fci_files_dir (hf_sys_data up) \<notin> unwritable w0"
    and fo: "can_open_out w0 (fcid_file (hf_sys_data up))"
  shows "succeeded (fci_driver up w0)
     \<and> new_events w0 (fci_driver up w0) =
         (if fs_exists w0 (files_dir (hf_sys_data up)) then []
          else [EvMkdir (files_dir (hf_sys_data up))])
         @ [EvWrite D_f1 (f1file (hf_sys_data up)), EvWrite CholVpr (v2file (hf_sys_data up)),
            EvStderr (''Error opening file '' @ cholfile (hf_sys_data up) @ [CHR 0x0A])]
         @ export_events (hf_sys_data up) (fs_exists w0 (fci_files_dir (hf_sys_data up)))
     \<and> files (final (fci_driver up w0)) (cholfile (hf_sys_data up))
         = files w0 (cholfile (hf_sys_data up))"
proof -
  have br: "\<not> ccsd_restart (hf_sys_data up) w0"
    using nrd nfiles by (simp add: ccsd_restart_def)
  have ok: "succeeded (fci_driver up w0)"
    by (rule fci_driver_persist_succeeds [OF br wr d o1 o2 l h fd fo])
  from fci_driver_persist_Done [OF ok br wr] have
    t: "trace (final (fci_driver up w0)) = trace w0
          @ persist_events (hf_sys_data up) (pg_rank up) (cd_chol_count (cd_of up w0)) w0
          @ export_events (hf_sys_data up) (fs_exists w0 (fci_files_dir (hf_sys_data up)))"
    and f: "files (final (fci_driver up w0)) (cholfile (hf_sys_data up)) =
          (if pg_rank up = 0 \<and> can_open_out w0 (cholfile (hf_sys_data up))
           then Some (TextFile (dec (cd_chol_count (cd_of up w0)) @ [CHR 0x0A]))
           else files w0 (cholfile (hf_sys_data up)))"
    by blast+
  from new_events_append [OF t] f rk closed ok show ?thesis
    by (simp add: persist_events_def)
qed

theorem count_file_open_failure_reported_witness:
  "pg_rank (up_h2 0 (with_flags False True sys_h2)) = 0
   \<and> \<not> can_open_out w_ro_h2 (cholfile sys_h2)
   \<and> succeeded (fci_driver (up_h2 0 (with_flags False True sys_h2)) w_ro_h2)
   \<and> new_events w_ro_h2 (fci_driver (up_h2 0 (with_flags False True sys_h2)) w_ro_h2) =
        [EvMkdir (files_dir sys_h2), EvWrite D_f1 (f1file sys_h2), EvWrite CholVpr (v2file sys_h2),
         EvStderr (''Error opening file '' @ cholfile sys_h2 @ [CHR 0x0A])]
        @ export_events sys_h2 False
   \<and> files (final (fci_driver (up_h2 0 (with_flags False True sys_h2)) w_ro_h2)) (cholfile sys_h2)
        = None"
  using count_file_open_failure_reported [of "up_h2 0 (with_flags False True sys_h2)" w_ro_h2
      2 "[2]" hcore_h2]
  by (simp add: fs_exists_def can_open_out_def paths_distinct export_events_def)

subsection \<open>Restart equivalence\<close>



end
